theory Spec2Isabelle
  imports Complex_Main
begin

section \<open>JavaScript values and property lookup\<close>

text \<open>
  The registry tables of \<^verbatim>\<open>config/roles.js\<close> and the verb table of
  \<^verbatim>\<open>requireResourceAccess\<close> are object literals, read with \<^verbatim>\<open>table[key]\<close>.
  An object literal inherits from \<^verbatim>\<open>Object.prototype\<close>, so a key that is not an own
  property of the table but names a member of \<^verbatim>\<open>Object.prototype\<close> reads that
  built-in member (a function, or the prototype object itself for \<^verbatim>\<open>__proto__\<close>),
  which is truthy. A lookup therefore has three outcomes.
\<close>

datatype 'a lookup = Own 'a | Inherited string | Absent

definition object_prototype_keys :: "string list" where
  "object_prototype_keys =
     [''constructor'', ''__defineGetter__'', ''__defineSetter__'', ''hasOwnProperty'',
      ''__lookupGetter__'', ''__lookupSetter__'', ''isPrototypeOf'', ''propertyIsEnumerable'',
      ''toString'', ''valueOf'', ''__proto__'', ''toLocaleString'']"

definition js_get :: "(string \<times> 'a) list \<Rightarrow> string \<Rightarrow> 'a lookup" where
  "js_get props k =
     (case map_of props k of
        Some v \<Rightarrow> Own v
      | None \<Rightarrow> if k \<in> set object_prototype_keys then Inherited k else Absent)"

text \<open>
  A value passed where a permission is expected: a string, or a built-in object of the
  runtime (named by its path, as in \<^verbatim>\<open>Object.create\<close>).
\<close>

datatype jsval = JStr string | JBuiltin string

datatype js_error = TypeError

section \<open>Role and permission registry (config/roles.js)\<close>

definition ROLES :: "string list" where
  "ROLES = [''admin'', ''user'', ''viewer'']"

definition PERMISSIONS :: "string list" where
  "PERMISSIONS =
     [''users:create'', ''users:read'', ''users:update'', ''users:delete'',
      ''contracts:create'', ''contracts:read'', ''contracts:update'', ''contracts:delete'',
      ''oracles:create'', ''oracles:read'', ''oracles:update'', ''oracles:delete'',
      ''tokens:create'', ''tokens:read'', ''tokens:update'', ''tokens:delete'',
      ''risks:create'', ''risks:read'', ''risks:update'', ''risks:delete'',
      ''alerts:create'', ''alerts:read'', ''alerts:update'', ''alerts:delete'',
      ''treasury:create'', ''treasury:read'', ''treasury:update'', ''treasury:delete'',
      ''ai-logs:create'', ''ai-logs:read'', ''ai-logs:update'', ''ai-logs:delete'',
      ''audit-logs:read'',
      ''settings:read'', ''settings:update'']"

definition USER_PERMISSIONS :: "string list" where
  "USER_PERMISSIONS =
     [''contracts:create'', ''contracts:read'', ''contracts:update'',
      ''oracles:read'',
      ''tokens:read'',
      ''risks:create'', ''risks:read'', ''risks:update'',
      ''alerts:read'', ''alerts:update'',
      ''treasury:read'',
      ''ai-logs:create'', ''ai-logs:read'',
      ''settings:read'']"

definition VIEWER_PERMISSIONS :: "string list" where
  "VIEWER_PERMISSIONS =
     [''contracts:read'', ''oracles:read'', ''tokens:read'', ''risks:read'',
      ''alerts:read'', ''treasury:read'', ''ai-logs:read'', ''settings:read'']"

text \<open>Each role's \<^verbatim>\<open>Set\<close> is kept as the list of its elements; admin's is
  \<^verbatim>\<open>Object.values(PERMISSIONS)\<close>.\<close>

definition ROLE_PERMISSIONS :: "(string \<times> string list) list" where
  "ROLE_PERMISSIONS =
     [(''admin'', PERMISSIONS), (''user'', USER_PERMISSIONS), (''viewer'', VIEWER_PERMISSIONS)]"

text \<open>\<^verbatim>\<open>Set.prototype.has\<close>: a set of strings holds no built-in object.\<close>

fun set_has :: "string list \<Rightarrow> jsval \<Rightarrow> bool" where
  "set_has xs (JStr p) = (p \<in> set xs)"
| "set_has xs (JBuiltin b) = False"

text \<open>
  \<^verbatim>\<open>hasPermission\<close>: the guard \<^verbatim>\<open>if (!rolePermissions) return false\<close> catches an
  undefined lookup only. An inherited member passes the guard, and calling its
  \<^verbatim>\<open>has\<close> (which no member of \<^verbatim>\<open>Object.prototype\<close> has) throws a TypeError.
\<close>

definition hasPermission :: "string \<Rightarrow> jsval \<Rightarrow> js_error + bool" where
  "hasPermission role permission =
     (case js_get ROLE_PERMISSIONS role of
        Absent \<Rightarrow> Inr False
      | Own rolePermissions \<Rightarrow> Inr (set_has rolePermissions permission)
      | Inherited k \<Rightarrow> Inl TypeError)"

definition isValidRole :: "string \<Rightarrow> bool" where
  "isValidRole role = (role \<in> set ROLES)"

text \<open>
  \<^verbatim>\<open>getRoleLevel\<close> returns \<^verbatim>\<open>levels[role] || 0\<close>: a number for an own key or an
  absent one, and the inherited built-in member itself otherwise.
\<close>

datatype level = Level nat | BuiltinLevel string

definition levels :: "(string \<times> nat) list" where
  "levels = [(''viewer'', 1), (''user'', 2), (''admin'', 3)]"

definition getRoleLevel :: "string \<Rightarrow> level" where
  "getRoleLevel role =
     (case js_get levels role of
        Own n \<Rightarrow> if n = 0 then Level 0 else Level n
      | Inherited k \<Rightarrow> BuiltinLevel k
      | Absent \<Rightarrow> Level 0)"

text \<open>
  The string a built-in member converts to under \<^verbatim>\<open>>=\<close>: the source text of a native
  function, or \<^verbatim>\<open>[object Object]\<close> for the prototype object.
\<close>

definition builtin_string :: "string \<Rightarrow> string" where
  "builtin_string k =
     (if k = ''__proto__'' then ''[object Object]''
      else ''function '' @ (if k = ''constructor'' then ''Object'' else k)
             @ ''() { [native code] }'')"

text \<open>\<^verbatim>\<open>a >= b\<close> on two strings compares them by code units.\<close>

fun string_ge :: "string \<Rightarrow> string \<Rightarrow> bool" where
  "string_ge [] [] = True"
| "string_ge [] (y # ys) = False"
| "string_ge (x # xs) [] = True"
| "string_ge (x # xs) (y # ys) =
     (if (of_char x :: nat) > of_char y then True
      else if (of_char x :: nat) < of_char y then False
      else string_ge xs ys)"

text \<open>
  \<^verbatim>\<open>a >= b\<close>: two numbers compare as numbers; a number against a built-in object
  compares against NaN and is false; two built-in objects compare as strings.
\<close>

fun js_ge :: "level \<Rightarrow> level \<Rightarrow> bool" where
  "js_ge (Level a) (Level b) = (a \<ge> b)"
| "js_ge (Level a) (BuiltinLevel k) = False"
| "js_ge (BuiltinLevel k) (Level b) = False"
| "js_ge (BuiltinLevel j) (BuiltinLevel k) = string_ge (builtin_string j) (builtin_string k)"

definition hasRoleLevel :: "string \<Rightarrow> string \<Rightarrow> bool" where
  "hasRoleLevel userRole requiredRole = js_ge (getRoleLevel userRole) (getRoleLevel requiredRole)"

section \<open>Requests and responses\<close>

text \<open>
  The identity claim carried by a token, and attached to a request as \<^verbatim>\<open>req.user\<close>:
  the fields \<^verbatim>\<open>id\<close>, \<^verbatim>\<open>email\<close>, \<^verbatim>\<open>role\<close> of the payload (its \<^verbatim>\<open>iat\<close> and
  \<^verbatim>\<open>exp\<close> are read by no function modelled here). A request carries the two cookies
  of \<^verbatim>\<open>req.cookies\<close>, each a string or undefined, its verb and \<^verbatim>\<open>req.user\<close>.
\<close>

record identity =
  uid :: string
  email :: string
  role :: string

record request =
  cookies_accessToken :: "string option"
  cookies_refreshToken :: "string option"
  http_method :: string
  user :: "identity option"

datatype json = Str string | Num int | Obj "(string \<times> json) list"

text \<open>
  What a middleware does with a request: call \<^verbatim>\<open>next()\<close>, end it with
  \<^verbatim>\<open>res.status(c).json(body)\<close>, let an exception escape, or never answer (an awaited
  promise that never settles).
\<close>

datatype outcome = Next | Respond nat "(string \<times> json) list" | Throw js_error | NoResponse

datatype log_entry = ConsoleWarn string string | ConsoleError string string

text \<open>\<^verbatim>\<open>!s\<close> for a cookie or field that is a string or undefined.\<close>

fun falsy :: "string option \<Rightarrow> bool" where
  "falsy None = True"
| "falsy (Some s) = (s = [])"

section \<open>Authorization middleware (middleware/authorize.js)\<close>

definition requireRoleLevel :: "string \<Rightarrow> request \<Rightarrow> outcome" where
  "requireRoleLevel minimumRole req =
     (case user req of
        None \<Rightarrow>
          Respond 401 [(''error'', Str ''Unauthorized''), (''message'', Str ''Authentication required'')]
      | Some u \<Rightarrow>
          if role u = [] \<or> \<not> isValidRole (role u) then
            Respond 403 [(''error'', Str ''Forbidden''), (''message'', Str ''Invalid user role'')]
          else if \<not> hasRoleLevel (role u) minimumRole then
            Respond 403 [(''error'', Str ''Forbidden''), (''message'', Str ''Insufficient role level''),
                         (''required'', Str minimumRole)]
          else Next)"

text \<open>
  \<^verbatim>\<open>requireResourceAccess\<close> reads the action of a request from the table
  \<^verbatim>\<open>methodToAction\<close>, whose values are the four action names.
\<close>

datatype action = Create | Read | Update | Delete

definition methodToAction :: "(string \<times> action) list" where
  "methodToAction =
     [(''GET'', Read), (''POST'', Create), (''PUT'', Update), (''PATCH'', Update),
      (''DELETE'', Delete)]"

text \<open>An entry of \<^verbatim>\<open>RESOURCE_PERMISSIONS\<close>: its \<^verbatim>\<open>create\<close>, \<^verbatim>\<open>read\<close>,
  \<^verbatim>\<open>update\<close> and \<^verbatim>\<open>delete\<close> properties, \<^verbatim>\<open>null\<close> as \<open>None\<close>.\<close>

fun entry ::
  "string option \<Rightarrow> string option \<Rightarrow> string option \<Rightarrow> string option \<Rightarrow> action \<Rightarrow> string option"
where
  "entry c r u d Create = c"
| "entry c r u d Read = r"
| "entry c r u d Update = u"
| "entry c r u d Delete = d"

definition RESOURCE_PERMISSIONS :: "(string \<times> (action \<Rightarrow> string option)) list" where
  "RESOURCE_PERMISSIONS =
     [(''contract-metrics'',
         entry (Some ''contracts:create'') (Some ''contracts:read'')
               (Some ''contracts:update'') (Some ''contracts:delete'')),
      (''oracle-feeds'',
         entry (Some ''oracles:create'') (Some ''oracles:read'')
               (Some ''oracles:update'') (Some ''oracles:delete'')),
      (''token-analytics'',
         entry (Some ''tokens:create'') (Some ''tokens:read'')
               (Some ''tokens:update'') (Some ''tokens:delete'')),
      (''risk-assessments'',
         entry (Some ''risks:create'') (Some ''risks:read'')
               (Some ''risks:update'') (Some ''risks:delete'')),
      (''alerts'',
         entry (Some ''alerts:create'') (Some ''alerts:read'')
               (Some ''alerts:update'') (Some ''alerts:delete'')),
      (''treasury-operations'',
         entry (Some ''treasury:create'') (Some ''treasury:read'')
               (Some ''treasury:update'') (Some ''treasury:delete'')),
      (''ai-action-logs'',
         entry (Some ''ai-logs:create'') (Some ''ai-logs:read'')
               (Some ''ai-logs:update'') (Some ''ai-logs:delete'')),
      (''audit-logs'',
         entry None (Some ''audit-logs:read'') None None)]"

text \<open>
  The property named by an action on a built-in member of \<^verbatim>\<open>Object.prototype\<close>: of
  these objects only the \<^verbatim>\<open>Object\<close> constructor has one, \<^verbatim>\<open>Object.create\<close>.
\<close>

definition builtin_member :: "string \<Rightarrow> action \<Rightarrow> jsval option" where
  "builtin_member k a =
     (if k = ''constructor'' \<and> a = Create then Some (JBuiltin ''Object.create'') else None)"

text \<open>
  \<^verbatim>\<open>getResourcePermission\<close>, for the actions of \<^verbatim>\<open>methodToAction\<close>;
  \<^verbatim>\<open>resourcePerms[action] || null\<close> turns every falsy property into \<^verbatim>\<open>null\<close>.
\<close>

definition getResourcePermission :: "string \<Rightarrow> action \<Rightarrow> jsval option" where
  "getResourcePermission resource a =
     (case js_get RESOURCE_PERMISSIONS resource of
        Absent \<Rightarrow> None
      | Own resourcePerms \<Rightarrow>
          (case resourcePerms a of
             None \<Rightarrow> None
           | Some p \<Rightarrow> if p = [] then None else Some (JStr p))
      | Inherited k \<Rightarrow> builtin_member k a)"

text \<open>\<^verbatim>\<open>res.json\<close> leaves a function-valued property out of the body.\<close>

fun required_field :: "jsval \<Rightarrow> (string \<times> json) list" where
  "required_field (JStr p) = [(''required'', Str p)]"
| "required_field (JBuiltin b) = []"

text \<open>
  \<^verbatim>\<open>requireResourceAccess\<close>. When \<^verbatim>\<open>req.method\<close> names a member of
  \<^verbatim>\<open>Object.prototype\<close>, \<^verbatim>\<open>action\<close> is that built-in object: it is truthy, so no 405
  is sent, and as a property key it is the object's string form, which names no
  property of any entry or built-in object, so the permission looked up is \<^verbatim>\<open>null\<close>.
\<close>

definition requireResourceAccess :: "string \<Rightarrow> request \<Rightarrow> outcome" where
  "requireResourceAccess resourceName req =
     (case user req of
        None \<Rightarrow>
          Respond 401 [(''error'', Str ''Unauthorized''), (''message'', Str ''Authentication required'')]
      | Some u \<Rightarrow>
          if role u = [] \<or> \<not> isValidRole (role u) then
            Respond 403 [(''error'', Str ''Forbidden''), (''message'', Str ''Invalid user role'')]
          else
            (case js_get methodToAction (http_method req) of
               Absent \<Rightarrow>
                 Respond 405 [(''error'', Str ''Method Not Allowed''),
                   (''message'', Str (''HTTP method '' @ http_method req @ '' is not supported''))]
             | Inherited k \<Rightarrow>
                 Respond 403 [(''error'', Str ''Forbidden''),
                   (''message'', Str ''This action is not permitted on this resource'')]
             | Own a \<Rightarrow>
                 (case getResourcePermission resourceName a of
                    None \<Rightarrow>
                      Respond 403 [(''error'', Str ''Forbidden''),
                        (''message'', Str ''This action is not permitted on this resource'')]
                  | Some requiredPermission \<Rightarrow>
                      (case hasPermission (role u) requiredPermission of
                         Inl e \<Rightarrow> Throw e
                       | Inr False \<Rightarrow>
                           Respond 403 ([(''error'', Str ''Forbidden''),
                             (''message'', Str ''Insufficient permissions for this action'')]
                             @ required_field requiredPermission)
                       | Inr True \<Rightarrow> Next))))"

text \<open>
  The ownership predicate is supplied by the caller and awaited: its promise resolves to
  a value (kept as its truthiness), rejects, or never settles.
\<close>

datatype settled = Resolves bool | Rejects string | NeverSettles

definition requireOwnership :: "(request \<Rightarrow> settled) \<Rightarrow> request \<Rightarrow> outcome \<times> log_entry list" where
  "requireOwnership ownershipCheck req =
     (case user req of
        None \<Rightarrow>
          (Respond 401 [(''error'', Str ''Unauthorized''), (''message'', Str ''Authentication required'')],
           [])
      | Some u \<Rightarrow>
          if role u = ''admin'' then (Next, [])
          else
            (case ownershipCheck req of
               Resolves isOwner \<Rightarrow>
                 if \<not> isOwner then
                   (Respond 403 [(''error'', Str ''Forbidden''),
                      (''message'', Str ''You can only access your own resources'')], [])
                 else (Next, [])
             | Rejects e \<Rightarrow>
                 (Respond 500 [(''error'', Str ''Internal Server Error''),
                    (''message'', Str ''Failed to verify resource ownership'')],
                  [ConsoleError ''Ownership check error:'' e])
             | NeverSettles \<Rightarrow> (NoResponse, [])))"

section \<open>Authentication middleware (middleware/authenticate.js)\<close>

text \<open>
  The \<^verbatim>\<open>jsonwebtoken\<close> library is a parameter of the model. Signing and verifying read
  the clock, which is an argument here: \<open>jwt_sign payload secret expiresIn now\<close> and
  \<open>jwt_verify token secret now\<close>, with \<open>now\<close> in whole seconds, the resolution at
  which a token is stamped. Either may throw; a thrown error has a name and a message.
\<close>

record exn =
  error_name :: string
  error_message :: string

record jwt =
  jwt_sign :: "identity \<Rightarrow> string \<Rightarrow> string \<Rightarrow> nat \<Rightarrow> exn + string"
  jwt_verify :: "string \<Rightarrow> string \<Rightarrow> nat \<Rightarrow> exn + identity"

record process_env =
  JWT_SECRET :: string
  JWT_REFRESH_SECRET :: string

definition authenticateToken :: "jwt \<Rightarrow> process_env \<Rightarrow> nat \<Rightarrow> request \<Rightarrow> outcome \<times> request" where
  "authenticateToken lib env now req =
     (case cookies_accessToken req of
        None \<Rightarrow>
          (Respond 401 [(''error'', Str ''Unauthorized''), (''message'', Str ''Access token required'')],
           req)
      | Some accessToken \<Rightarrow>
          if accessToken = [] then
            (Respond 401 [(''error'', Str ''Unauthorized''), (''message'', Str ''Access token required'')],
             req)
          else
            (case jwt_verify lib accessToken (JWT_SECRET env) now of
               Inr decoded \<Rightarrow> (Next, req\<lparr>user := Some decoded\<rparr>)
             | Inl e \<Rightarrow>
                 if error_name e = ''TokenExpiredError'' then
                   (Respond 401 [(''error'', Str ''Unauthorized''),
                      (''message'', Str ''Access token expired'')], req)
                 else if error_name e = ''JsonWebTokenError'' then
                   (Respond 401 [(''error'', Str ''Unauthorized''),
                      (''message'', Str ''Invalid access token'')], req)
                 else
                   (Respond 401 [(''error'', Str ''Unauthorized''),
                      (''message'', Str ''Authentication failed'')], req)))"

definition optionalAuth ::
  "jwt \<Rightarrow> process_env \<Rightarrow> nat \<Rightarrow> request \<Rightarrow> outcome \<times> request \<times> log_entry list" where
  "optionalAuth lib env now req =
     (case cookies_accessToken req of
        None \<Rightarrow> (Next, req, [])
      | Some accessToken \<Rightarrow>
          if accessToken = [] then (Next, req, [])
          else
            (case jwt_verify lib accessToken (JWT_SECRET env) now of
               Inr decoded \<Rightarrow> (Next, req\<lparr>user := Some decoded\<rparr>, [])
             | Inl e \<Rightarrow>
                 (Next, req, [ConsoleWarn ''Optional auth token invalid:'' (error_message e)])))"

section \<open>Authentication routes (routes/auth.js)\<close>

record user_record =
  user_id :: string
  user_email :: string
  password :: "string option"
  full_name :: string
  user_role :: string
  created_at :: string

text \<open>The mock user list; \<^verbatim>\<open>created_at\<close> is the time the module was loaded.\<close>

definition mock_users :: "string \<Rightarrow> string \<Rightarrow> user_record list" where
  "mock_users t1 t2 =
     [\<lparr>user_id = ''1'', user_email = ''admin@lumanagi.com'',
       password = Some ''$2a$10$AYh.miNYoHy.7xDMXVXqbOKWh62ZqVREmrg1tuR6Ho8B8obUHKb06'',
       full_name = ''Admin User'', user_role = ''admin'', created_at = t1\<rparr>,
      \<lparr>user_id = ''2'', user_email = ''user@lumanagi.com'',
       password = Some ''$2a$10$AYh.miNYoHy.7xDMXVXqbOKWh62ZqVREmrg1tuR6Ho8B8obUHKb06'',
       full_name = ''Regular User'', user_role = ''user'', created_at = t2\<rparr>]"

text \<open>The state of the process: the user list and the refresh token registry.\<close>

record server =
  users :: "user_record list"
  refreshTokens :: "string set"

datatype cookie_op = SetCookie string string nat | ClearCookie string

record response =
  status :: nat
  body :: "(string \<times> json) list"
  cookies :: "cookie_op list"

definition generateTokens :: "jwt \<Rightarrow> process_env \<Rightarrow> nat \<Rightarrow> user_record \<Rightarrow> exn + (string \<times> string)" where
  "generateTokens lib env now u =
     (let payload = \<lparr>uid = user_id u, email = user_email u, role = user_role u\<rparr> in
      case jwt_sign lib payload (JWT_SECRET env) ''15m'' now of
        Inl e \<Rightarrow> Inl e
      | Inr accessToken \<Rightarrow>
          (case jwt_sign lib payload (JWT_REFRESH_SECRET env) ''7d'' now of
             Inl e \<Rightarrow> Inl e
           | Inr refreshToken \<Rightarrow> Inr (accessToken, refreshToken)))"

text \<open>Every cookie is set and cleared with the same \<^verbatim>\<open>COOKIE_OPTIONS\<close>; a set cookie
  carries its \<^verbatim>\<open>maxAge\<close> in milliseconds.\<close>

definition setAuthCookies :: "string \<Rightarrow> string \<Rightarrow> cookie_op list" where
  "setAuthCookies accessToken refreshToken =
     [SetCookie ''accessToken'' accessToken (15 * 60 * 1000),
      SetCookie ''refreshToken'' refreshToken (7 * 24 * 60 * 60 * 1000)]"

definition clearAuthCookies :: "cookie_op list" where
  "clearAuthCookies = [ClearCookie ''accessToken'', ClearCookie ''refreshToken'']"

definition userWithoutPassword :: "user_record \<Rightarrow> json" where
  "userWithoutPassword u =
     Obj [(''id'', Str (user_id u)), (''email'', Str (user_email u)), (''full_name'', Str (full_name u)),
        (''role'', Str (user_role u)), (''created_at'', Str (created_at u))]"

text \<open>
  \<^verbatim>\<open>POST /login\<close> with the \<^verbatim>\<open>email\<close> and \<^verbatim>\<open>password\<close> fields of the body;
  \<^verbatim>\<open>bcrypt.compare\<close> is a parameter.
\<close>

definition login ::
  "jwt \<Rightarrow> process_env \<Rightarrow> (string \<Rightarrow> string option \<Rightarrow> exn + bool) \<Rightarrow> nat \<Rightarrow> server
     \<Rightarrow> string option \<Rightarrow> string option \<Rightarrow> response \<times> server \<times> log_entry list" where
  "login lib env bcrypt_compare now s em pw =
     (case (em, pw) of
        (Some e, Some p) \<Rightarrow>
          if e = [] \<or> p = [] then
            (\<lparr>status = 400, body = [(''error'', Str ''Email and password are required'')],
              cookies = []\<rparr>, s, [])
          else
            (case find (\<lambda>u. user_email u = e) (users s) of
               None \<Rightarrow>
                 (\<lparr>status = 401, body = [(''error'', Str ''Invalid credentials'')], cookies = []\<rparr>,
                  s, [])
             | Some u \<Rightarrow>
                 (case bcrypt_compare p (password u) of
                    Inl x \<Rightarrow>
                      (\<lparr>status = 500, body = [(''error'', Str ''Login failed'')], cookies = []\<rparr>,
                       s, [ConsoleError ''Login error:'' (error_message x)])
                  | Inr False \<Rightarrow>
                      (\<lparr>status = 401, body = [(''error'', Str ''Invalid credentials'')],
                        cookies = []\<rparr>, s, [])
                  | Inr True \<Rightarrow>
                      (case generateTokens lib env now u of
                         Inl x \<Rightarrow>
                           (\<lparr>status = 500, body = [(''error'', Str ''Login failed'')],
                             cookies = []\<rparr>,
                            s, [ConsoleError ''Login error:'' (error_message x)])
                       | Inr (accessToken, refreshToken) \<Rightarrow>
                           (\<lparr>status = 200,
                             body = [(''user'', userWithoutPassword u),
                                     (''message'', Str ''Login successful'')],
                             cookies = setAuthCookies accessToken refreshToken\<rparr>,
                            s\<lparr>refreshTokens := insert refreshToken (refreshTokens s)\<rparr>, []))))
      | _ \<Rightarrow>
          (\<lparr>status = 400, body = [(''error'', Str ''Email and password are required'')],
            cookies = []\<rparr>, s, []))"

text \<open>\<^verbatim>\<open>POST /refresh\<close>.\<close>

definition refresh ::
  "jwt \<Rightarrow> process_env \<Rightarrow> nat \<Rightarrow> server \<Rightarrow> request \<Rightarrow> response \<times> server \<times> log_entry list" where
  "refresh lib env now s req =
     (case cookies_refreshToken req of
        None \<Rightarrow>
          (\<lparr>status = 401, body = [(''error'', Str ''Invalid refresh token'')],
            cookies = clearAuthCookies\<rparr>, s, [])
      | Some refreshToken \<Rightarrow>
          if refreshToken = [] \<or> refreshToken \<notin> refreshTokens s then
            (\<lparr>status = 401, body = [(''error'', Str ''Invalid refresh token'')],
              cookies = clearAuthCookies\<rparr>, s, [])
          else
            (case jwt_verify lib refreshToken (JWT_REFRESH_SECRET env) now of
               Inl x \<Rightarrow>
                 (\<lparr>status = 401, body = [(''error'', Str ''Invalid refresh token'')],
                   cookies = clearAuthCookies\<rparr>,
                  s, [ConsoleError ''Token refresh error:'' (error_message x)])
             | Inr decoded \<Rightarrow>
                 (case find (\<lambda>u. user_id u = uid decoded) (users s) of
                    None \<Rightarrow>
                      (\<lparr>status = 401, body = [(''error'', Str ''User not found'')],
                        cookies = clearAuthCookies\<rparr>, s, [])
                  | Some u \<Rightarrow>
                      (case generateTokens lib env now u of
                         Inl x \<Rightarrow>
                           (\<lparr>status = 401, body = [(''error'', Str ''Invalid refresh token'')],
                             cookies = clearAuthCookies\<rparr>,
                            s, [ConsoleError ''Token refresh error:'' (error_message x)])
                       | Inr (accessToken, newRefreshToken) \<Rightarrow>
                           (\<lparr>status = 200,
                             body = [(''message'', Str ''Token refreshed successfully'')],
                             cookies = setAuthCookies accessToken newRefreshToken\<rparr>,
                            s\<lparr>refreshTokens :=
                                insert newRefreshToken (refreshTokens s - {refreshToken})\<rparr>,
                            [])))))"

section \<open>Rate limiting (middleware/rateLimiter.js)\<close>

text \<open>Decimal digits of a number, as a template literal prints it.\<close>

function show_nat :: "nat \<Rightarrow> string" where
  "show_nat n =
     (if n < 10 then [''0123456789'' ! n]
      else show_nat (n div 10) @ [''0123456789'' ! (n mod 10)])"
  by pat_completeness auto
termination
  by (relation "measure id") auto

declare show_nat.simps [simp del]

definition show_int :: "int \<Rightarrow> string" where
  "show_int i = (if i < 0 then CHR ''-'' # show_nat (nat (- i)) else show_nat (nat i))"

text \<open>\<^verbatim>\<open>req.rateLimit\<close>, as the limiter library leaves it on the request; times are in
  milliseconds.\<close>

record rate_limit_info =
  limit :: nat
  remaining :: nat
  resetTime :: nat

text \<open>
  \<^verbatim>\<open>createRateLimitMessage\<close>; \<^verbatim>\<open>Math.ceil((resetTime - Date.now()) / 1000)\<close> on whole
  milliseconds is the integer ceiling, written with the floor division of \<open>int\<close>.
  \<^verbatim>\<open>Date.prototype.toISOString\<close> is a parameter.
\<close>

definition createRateLimitMessage ::
  "(nat \<Rightarrow> string) \<Rightarrow> rate_limit_info \<Rightarrow> nat \<Rightarrow> (string \<times> json) list" where
  "createRateLimitMessage toISOString info now =
     (let retryAfter = - ((int now - int (resetTime info)) div 1000) in
      [(''error'', Str ''Too many requests''),
       (''message'', Str (''You have exceeded the rate limit. Please try again in ''
                          @ show_int retryAfter @ '' seconds.'')),
       (''retryAfter'', Num retryAfter),
       (''limit'', Num (int (limit info))),
       (''remaining'', Num (int (remaining info))),
       (''resetTime'', Str (toISOString (resetTime info)))])"

definition rateLimitHandler :: "(nat \<Rightarrow> string) \<Rightarrow> rate_limit_info \<Rightarrow> nat \<Rightarrow> outcome" where
  "rateLimitHandler toISOString info now = Respond 429 (createRateLimitMessage toISOString info now)"

text \<open>The options a limiter is built with (\<^verbatim>\<open>max\<close> is \<open>max_requests\<close> here).\<close>

record rate_limit_options =
  windowMs :: nat
  max_requests :: nat
  skipSuccessfulRequests :: bool

definition loginRateLimiter :: rate_limit_options where
  "loginRateLimiter =
     \<lparr>windowMs = 15 * 60 * 1000, max_requests = 5, skipSuccessfulRequests = True\<rparr>"

text \<open>
  Every limiter of this file is built by the function \<^verbatim>\<open>rateLimit\<close> of the package
  \<^verbatim>\<open>express-rate-limit\<close>, which is not part of the repository. The spec describes
  what it keeps per client key: a bucket with a count and a window-reset timestamp.
\<close>

record bucket =
  hits :: nat
  resetAt :: nat

text \<open>
  Modelled from the spec: the bucket a request of \<^verbatim>\<open>rateLimit\<close> (package
  \<^verbatim>\<open>express-rate-limit\<close>, not in the repository) falls into. A bucket is created
  lazily on the first request in a window and reset when the window expires.
\<close>

definition current_bucket :: "rate_limit_options \<Rightarrow> (string \<Rightarrow> bucket option) \<Rightarrow> string \<Rightarrow> nat \<Rightarrow> bucket" where
  "current_bucket opts store key now =
     (case store key of
        None \<Rightarrow> \<lparr>hits = 0, resetAt = now + windowMs opts\<rparr>
      | Some b \<Rightarrow> if now < resetAt b then b else \<lparr>hits = 0, resetAt = now + windowMs opts\<rparr>)"

text \<open>
  Modelled from the spec: the middleware \<^verbatim>\<open>rateLimit(options)\<close> of the package
  \<^verbatim>\<open>express-rate-limit\<close>, not in the repository. Counters are per client key over a
  fixed window; a request that exceeds the limit is answered 429 through the configured
  handler; under the skip-successful-requests policy a bucket only increments on
  responses whose status is at least 400, otherwise on every request. \<open>downstream\<close>
  is the status the handlers behind the limiter answer with when the request is let
  through.
\<close>

definition rateLimit ::
  "rate_limit_options \<Rightarrow> (nat \<Rightarrow> string) \<Rightarrow> (string \<Rightarrow> bucket option) \<Rightarrow> string \<Rightarrow> nat \<Rightarrow> nat
     \<Rightarrow> outcome \<times> (string \<Rightarrow> bucket option)" where
  "rateLimit opts toISOString store key now downstream =
     (let b = current_bucket opts store key now in
      if hits b \<ge> max_requests opts then
        (rateLimitHandler toISOString
           \<lparr>limit = max_requests opts, remaining = max_requests opts - hits b,
            resetTime = resetAt b\<rparr> now,
         store(key \<mapsto> b\<lparr>hits := hits b + 1\<rparr>))
      else if skipSuccessfulRequests opts \<and> downstream < 400 then
        (Next, store(key \<mapsto> b))
      else
        (Next, store(key \<mapsto> b\<lparr>hits := hits b + 1\<rparr>)))"

text \<open>A run of requests from one client key, each given by its time and the status the
  handlers behind the limiter would answer with.\<close>

fun attempts ::
  "rate_limit_options \<Rightarrow> (nat \<Rightarrow> string) \<Rightarrow> (string \<Rightarrow> bucket option) \<Rightarrow> string
     \<Rightarrow> (nat \<times> nat) list \<Rightarrow> (string \<Rightarrow> bucket option)" where
  "attempts opts toISOString store key [] = store"
| "attempts opts toISOString store key ((now, downstream) # rest) =
     attempts opts toISOString (snd (rateLimit opts toISOString store key now downstream)) key rest"

section \<open>A token library for the examples\<close>

text \<open>
  The examples below need a concrete token library. Its signer is a function of the
  payload, the secret, the lifetime and the clock, as HMAC signing is; its verifier
  accepts the admin's tokens issued at clock reading 1700000000 and rejects everything
  else, two sample tokens with the errors for an expired and a not yet valid token.
\<close>

definition sample_jwt :: jwt where
  "sample_jwt =
     \<lparr>jwt_sign = (\<lambda>payload secret expiresIn now.
         Inr (secret @ ''.'' @ uid payload @ ''.'' @ expiresIn @ ''.'' @ show_nat now)),
      jwt_verify = (\<lambda>token secret now.
         if token = ''expired'' then
           Inl \<lparr>error_name = ''TokenExpiredError'', error_message = ''jwt expired''\<rparr>
         else if token = ''early'' then
           Inl \<lparr>error_name = ''NotBeforeError'', error_message = ''jwt not active''\<rparr>
         else if token = secret @ ''.1.15m.1700000000'' \<or> token = secret @ ''.1.7d.1700000000'' then
           Inr \<lparr>uid = ''1'', email = ''admin@lumanagi.com'', role = ''admin''\<rparr>
         else
           Inl \<lparr>error_name = ''JsonWebTokenError'', error_message = ''jwt malformed''\<rparr>)\<rparr>"

definition sample_env :: process_env where
  "sample_env = \<lparr>JWT_SECRET = ''access-secret'', JWT_REFRESH_SECRET = ''refresh-secret''\<rparr>"

section \<open>Properties of the registry\<close>

lemma js_get_ROLE_PERMISSIONS_valid:
  "js_get ROLE_PERMISSIONS ''admin'' = Own PERMISSIONS"
  "js_get ROLE_PERMISSIONS ''user'' = Own USER_PERMISSIONS"
  "js_get ROLE_PERMISSIONS ''viewer'' = Own VIEWER_PERMISSIONS"
  by (simp_all add: js_get_def ROLE_PERMISSIONS_def)

lemma viewer_subset_user: "set VIEWER_PERMISSIONS \<subseteq> set USER_PERMISSIONS"
  by (simp add: VIEWER_PERMISSIONS_def USER_PERMISSIONS_def)

lemma user_subset_admin: "set USER_PERMISSIONS \<subseteq> set PERMISSIONS"
  by (simp add: USER_PERMISSIONS_def PERMISSIONS_def)

lemma set_has_mono: "set xs \<subseteq> set ys \<Longrightarrow> set_has xs p \<Longrightarrow> set_has ys p"
  by (cases p) auto

lemma getRoleLevel_valid:
  "getRoleLevel ''admin'' = Level 3" "getRoleLevel ''user'' = Level 2" "getRoleLevel ''viewer'' = Level 1"
  by (simp_all add: getRoleLevel_def js_get_def levels_def)

lemma hasPermission_valid:
  "hasPermission ''admin'' p = Inr (set_has PERMISSIONS p)"
  "hasPermission ''user'' p = Inr (set_has USER_PERMISSIONS p)"
  "hasPermission ''viewer'' p = Inr (set_has VIEWER_PERMISSIONS p)"
  by (simp_all add: hasPermission_def js_get_ROLE_PERMISSIONS_valid)

lemma isValidRole_cases: "isValidRole r \<Longrightarrow> r = ''admin'' \<or> r = ''user'' \<or> r = ''viewer''"
  by (simp add: isValidRole_def ROLES_def)

lemma set_has_viewer_user: "set_has VIEWER_PERMISSIONS p \<Longrightarrow> set_has USER_PERMISSIONS p"
  using viewer_subset_user by (rule set_has_mono)

lemma set_has_user_admin: "set_has USER_PERMISSIONS p \<Longrightarrow> set_has PERMISSIONS p"
  using user_subset_admin by (rule set_has_mono)

lemma permission_monotone_valid:
  assumes "isValidRole r1" "isValidRole r2" "js_ge (getRoleLevel r1) (getRoleLevel r2)"
    and "hasPermission r2 p = Inr True"
  shows "hasPermission r1 p = Inr True"
proof -
  from assms(1) have r1: "r1 = ''admin'' \<or> r1 = ''user'' \<or> r1 = ''viewer''"
    by (rule isValidRole_cases)
  from assms(2) have r2: "r2 = ''admin'' \<or> r2 = ''user'' \<or> r2 = ''viewer''"
    by (rule isValidRole_cases)
  from r2 show ?thesis
  proof (elim disjE)
    assume a: "r2 = ''admin''"
    with assms(3) r1 have "r1 = ''admin''"
      by (auto simp: getRoleLevel_valid)
    with a assms(4) show ?thesis by simp
  next
    assume u: "r2 = ''user''"
    with assms(4) have up: "set_has USER_PERMISSIONS p"
      by (simp add: hasPermission_valid)
    from u assms(3) r1 have "r1 = ''admin'' \<or> r1 = ''user''"
      by (auto simp: getRoleLevel_valid)
    then show ?thesis
      using up set_has_user_admin [OF up] by (auto simp: hasPermission_valid)
  next
    assume v: "r2 = ''viewer''"
    with assms(4) have vp: "set_has VIEWER_PERMISSIONS p"
      by (simp add: hasPermission_valid)
    note up = set_has_viewer_user [OF vp]
    note ap = set_has_user_admin [OF up]
    from r1 show ?thesis
      using vp up ap by (auto simp: hasPermission_valid)
  qed
qed

lemma hasPermission_unknown_role:
  "r \<notin> set ROLES \<Longrightarrow> r \<notin> set object_prototype_keys \<Longrightarrow> hasPermission r p = Inr False"
  by (simp add: hasPermission_def js_get_def ROLE_PERMISSIONS_def ROLES_def)

lemma hasPermission_inherited:
  "r \<in> set object_prototype_keys \<Longrightarrow> hasPermission r p = Inl TypeError"
  by (auto simp: hasPermission_def js_get_def ROLE_PERMISSIONS_def object_prototype_keys_def)

lemma hasPermission_enumerated:
  "isValidRole r \<Longrightarrow>
     \<exists>granted. map_of ROLE_PERMISSIONS r = Some granted \<and> hasPermission r p = Inr (set_has granted p)"
  by (auto simp: hasPermission_def js_get_def ROLE_PERMISSIONS_def isValidRole_def ROLES_def)

text \<open>
  C3. For a role outside the enumeration \<^verbatim>\<open>hasPermission\<close> is meant to return false
  without throwing. It does so only when the role names no member of
  \<^verbatim>\<open>Object.prototype\<close> (\<open>hasPermission_unknown_role\<close>); for an enumerated role it
  answers membership in the granted set (\<open>hasPermission_enumerated\<close>). For the role
  \<^verbatim>\<open>constructor\<close>, which is not enumerated, the call throws a TypeError for every
  permission string.
\<close>

theorem hasPermission_constructor_throws:
  "\<not> isValidRole ''constructor'' \<and> hasPermission ''constructor'' (JStr p) = Inl TypeError"
  by (simp add: isValidRole_def ROLES_def hasPermission_inherited object_prototype_keys_def)

text \<open>
  C9. Permissions are monotone along the role hierarchy: for enumerated roles \<open>r1\<close>,
  \<open>r2\<close> with \<^verbatim>\<open>getRoleLevel(r1) >= getRoleLevel(r2)\<close>, every permission granted to
  \<open>r2\<close> is granted to \<open>r1\<close>; viewer's set is contained in user's, user's in admin's,
  and admin holds every permission of the enumeration.
\<close>

theorem permission_monotone:
  "(\<forall>r1 r2 p. isValidRole r1 \<and> isValidRole r2 \<and> js_ge (getRoleLevel r1) (getRoleLevel r2)
       \<and> hasPermission r2 p = Inr True \<longrightarrow> hasPermission r1 p = Inr True)
   \<and> set VIEWER_PERMISSIONS \<subseteq> set USER_PERMISSIONS
   \<and> set USER_PERMISSIONS \<subseteq> set PERMISSIONS
   \<and> (\<forall>p \<in> set PERMISSIONS. hasPermission ''admin'' (JStr p) = Inr True)"
proof (intro conjI allI impI ballI)
  fix r1 r2 p
  assume "isValidRole r1 \<and> isValidRole r2 \<and> js_ge (getRoleLevel r1) (getRoleLevel r2)
       \<and> hasPermission r2 p = Inr True"
  then show "hasPermission r1 p = Inr True"
    using permission_monotone_valid by blast
next
  show "set VIEWER_PERMISSIONS \<subseteq> set USER_PERMISSIONS" by (rule viewer_subset_user)
next
  show "set USER_PERMISSIONS \<subseteq> set PERMISSIONS" by (rule user_subset_admin)
next
  fix p assume "p \<in> set PERMISSIONS"
  then show "hasPermission ''admin'' (JStr p) = Inr True"
    by (simp add: hasPermission_valid)
qed

theorem permission_monotone_witness:
  "isValidRole ''user'' \<and> isValidRole ''viewer''
   \<and> js_ge (getRoleLevel ''user'') (getRoleLevel ''viewer'')
   \<and> hasPermission ''viewer'' (JStr ''risks:read'') = Inr True
   \<and> hasPermission ''user'' (JStr ''risks:read'') = Inr True
   \<and> ''users:delete'' \<in> set PERMISSIONS
   \<and> hasPermission ''admin'' (JStr ''users:delete'') = Inr True"
proof -
  have pre: "isValidRole ''user'' \<and> isValidRole ''viewer''
      \<and> js_ge (getRoleLevel ''user'') (getRoleLevel ''viewer'')
      \<and> hasPermission ''viewer'' (JStr ''risks:read'') = Inr True"
    by (simp add: isValidRole_def ROLES_def getRoleLevel_valid hasPermission_valid
        VIEWER_PERMISSIONS_def)
  have mem: "''users:delete'' \<in> set PERMISSIONS"
    by (simp add: PERMISSIONS_def)
  from permission_monotone pre have "hasPermission ''user'' (JStr ''risks:read'') = Inr True"
    by blast
  moreover from permission_monotone mem
  have "hasPermission ''admin'' (JStr ''users:delete'') = Inr True"
    by blast
  ultimately show ?thesis using pre mem by simp
qed

section \<open>Properties of the authorization middleware\<close>

lemma getRoleLevel_unknown:
  "r \<notin> set ROLES \<Longrightarrow> r \<notin> set object_prototype_keys \<Longrightarrow> getRoleLevel r = Level 0"
  by (simp add: getRoleLevel_def js_get_def levels_def ROLES_def)

lemma getRoleLevel_inherited:
  "r \<in> set object_prototype_keys \<Longrightarrow> getRoleLevel r = BuiltinLevel r"
  by (auto simp: getRoleLevel_def js_get_def levels_def object_prototype_keys_def)

lemma requireRoleLevel_invalid_identity:
  "user req = Some u \<Longrightarrow> \<not> isValidRole (role u) \<Longrightarrow>
     requireRoleLevel m req =
       Respond 403 [(''error'', Str ''Forbidden''), (''message'', Str ''Invalid user role'')]"
  by (simp add: requireRoleLevel_def)

lemma hasRoleLevel_unknown_user:
  "r \<notin> set ROLES \<Longrightarrow> r \<notin> set object_prototype_keys \<Longrightarrow> isValidRole m \<Longrightarrow> \<not> hasRoleLevel r m"
  by (auto simp: hasRoleLevel_def getRoleLevel_unknown getRoleLevel_valid dest!: isValidRole_cases)

lemma hasRoleLevel_unknown_minimum:
  "m \<notin> set ROLES \<Longrightarrow> m \<notin> set object_prototype_keys \<Longrightarrow> isValidRole r \<Longrightarrow> hasRoleLevel r m"
  by (auto simp: hasRoleLevel_def getRoleLevel_unknown getRoleLevel_valid dest!: isValidRole_cases)

text \<open>
  C7. Unknown roles are meant to be denied on every path. An identity whose role is not
  enumerated is denied by \<^verbatim>\<open>requireRoleLevel\<close> (\<open>requireRoleLevel_invalid_identity\<close>),
  and an unknown user role never reaches an enumerated minimum
  (\<open>hasRoleLevel_unknown_user\<close>). But an unknown role configured as the required
  minimum has level 0, which every enumerated role reaches
  (\<open>hasRoleLevel_unknown_minimum\<close>): \<^verbatim>\<open>requireRoleLevel('superadmin')\<close> lets a viewer
  through. And \<^verbatim>\<open>getRoleLevel('constructor')\<close> is not 0 but the inherited built-in
  function.
\<close>

theorem requireRoleLevel_unknown_minimum_allows:
  "\<not> isValidRole ''superadmin''
   \<and> getRoleLevel ''superadmin'' = Level 0
   \<and> hasRoleLevel ''viewer'' ''superadmin''
   \<and> requireRoleLevel ''superadmin''
        \<lparr>cookies_accessToken = None, cookies_refreshToken = None, http_method = ''POST'',
         user = Some \<lparr>uid = ''3'', email = ''viewer@lumanagi.com'', role = ''viewer''\<rparr>\<rparr> = Next
   \<and> getRoleLevel ''constructor'' = BuiltinLevel ''constructor''"
  by (simp add: isValidRole_def ROLES_def requireRoleLevel_def hasRoleLevel_def
      getRoleLevel_def js_get_def levels_def object_prototype_keys_def)

lemma isValidRole_nonempty: "isValidRole r \<Longrightarrow> r \<noteq> []"
  by (auto simp: isValidRole_def ROLES_def)

lemma hasPermission_builtin: "isValidRole r \<Longrightarrow> hasPermission r (JBuiltin b) = Inr False"
  by (auto simp: hasPermission_valid dest!: isValidRole_cases)

lemma hasPermission_total: "isValidRole r \<Longrightarrow> \<exists>b. hasPermission r p = Inr b"
  by (auto simp: hasPermission_valid dest!: isValidRole_cases)

lemma methodToAction_own:
  "js_get methodToAction ''GET'' = Own Read"
  "js_get methodToAction ''POST'' = Own Create"
  "js_get methodToAction ''PUT'' = Own Update"
  "js_get methodToAction ''PATCH'' = Own Update"
  "js_get methodToAction ''DELETE'' = Own Delete"
  by (simp_all add: js_get_def methodToAction_def)

lemma methodToAction_absent:
  "m \<notin> {''GET'', ''POST'', ''PUT'', ''PATCH'', ''DELETE''} \<Longrightarrow> m \<notin> set object_prototype_keys
     \<Longrightarrow> js_get methodToAction m = Absent"
  by (simp add: js_get_def methodToAction_def)

lemma getResourcePermission_no_entry:
  "map_of RESOURCE_PERMISSIONS res = None \<Longrightarrow>
     getResourcePermission res a = None \<or> getResourcePermission res a = Some (JBuiltin ''Object.create'')"
  by (simp add: getResourcePermission_def js_get_def builtin_member_def)

lemma getResourcePermission_null:
  "map_of RESOURCE_PERMISSIONS res = Some e \<Longrightarrow> e a = None \<Longrightarrow> getResourcePermission res a = None"
  by (simp add: getResourcePermission_def js_get_def)

lemma getResourcePermission_entry:
  "map_of RESOURCE_PERMISSIONS res = Some e \<Longrightarrow> e a = Some p \<Longrightarrow> p \<noteq> [] \<Longrightarrow>
     getResourcePermission res a = Some (JStr p)"
  by (simp add: getResourcePermission_def js_get_def)

lemma RESOURCE_PERMISSIONS_nonempty:
  "map_of RESOURCE_PERMISSIONS res = Some e \<Longrightarrow> e a = Some p \<Longrightarrow> p \<noteq> []"
  by (cases a) (auto simp: RESOURCE_PERMISSIONS_def split: if_splits)

lemma requireResourceAccess_own:
  assumes "user req = Some u" and "isValidRole (role u)"
    and "js_get methodToAction (http_method req) = Own a"
  shows "requireResourceAccess res req =
     (case getResourcePermission res a of
        None \<Rightarrow>
          Respond 403 [(''error'', Str ''Forbidden''),
            (''message'', Str ''This action is not permitted on this resource'')]
      | Some p \<Rightarrow>
          if hasPermission (role u) p = Inr True then Next
          else Respond 403 ([(''error'', Str ''Forbidden''),
                 (''message'', Str ''Insufficient permissions for this action'')]
                 @ required_field p))"
proof -
  from assms(2) have ne: "role u \<noteq> []" by (rule isValidRole_nonempty)
  show ?thesis
  proof (cases "getResourcePermission res a")
    case None
    then show ?thesis using assms ne by (simp add: requireResourceAccess_def)
  next
    case (Some p)
    from assms(2) obtain b where b: "hasPermission (role u) p = Inr b"
      using hasPermission_total by blast
    show ?thesis using assms ne Some b by (cases b) (simp_all add: requireResourceAccess_def)
  qed
qed

lemma requireResourceAccess_verb:
  assumes "user req = Some u" and "isValidRole (role u)"
    and "js_get methodToAction (http_method req) = Own a"
  shows "((map_of RESOURCE_PERMISSIONS res = None
             \<or> (\<exists>e. map_of RESOURCE_PERMISSIONS res = Some e \<and> e a = None))
            \<longrightarrow> (\<exists>b. requireResourceAccess res req = Respond 403 b))
     \<and> (\<forall>e p. map_of RESOURCE_PERMISSIONS res = Some e \<and> e a = Some p
              \<and> hasPermission (role u) (JStr p) = Inr False
            \<longrightarrow> requireResourceAccess res req =
                  Respond 403 [(''error'', Str ''Forbidden''),
                    (''message'', Str ''Insufficient permissions for this action''),
                    (''required'', Str p)])
     \<and> (\<forall>e p. map_of RESOURCE_PERMISSIONS res = Some e \<and> e a = Some p
              \<and> hasPermission (role u) (JStr p) = Inr True
            \<longrightarrow> requireResourceAccess res req = Next)"
proof (intro conjI allI impI)
  assume h: "map_of RESOURCE_PERMISSIONS res = None
             \<or> (\<exists>e. map_of RESOURCE_PERMISSIONS res = Some e \<and> e a = None)"
  then have "getResourcePermission res a = None
      \<or> getResourcePermission res a = Some (JBuiltin ''Object.create'')"
    using getResourcePermission_no_entry getResourcePermission_null by blast
  then show "\<exists>b. requireResourceAccess res req = Respond 403 b"
    using requireResourceAccess_own [OF assms, of res] hasPermission_builtin [OF assms(2)]
    by auto
next
  fix e p
  assume h: "map_of RESOURCE_PERMISSIONS res = Some e \<and> e a = Some p
              \<and> hasPermission (role u) (JStr p) = Inr False"
  then have "getResourcePermission res a = Some (JStr p)"
    using getResourcePermission_entry RESOURCE_PERMISSIONS_nonempty by blast
  then show "requireResourceAccess res req =
                  Respond 403 [(''error'', Str ''Forbidden''),
                    (''message'', Str ''Insufficient permissions for this action''),
                    (''required'', Str p)]"
    using requireResourceAccess_own [OF assms, of res] h by simp
next
  fix e p
  assume h: "map_of RESOURCE_PERMISSIONS res = Some e \<and> e a = Some p
              \<and> hasPermission (role u) (JStr p) = Inr True"
  then have "getResourcePermission res a = Some (JStr p)"
    using getResourcePermission_entry RESOURCE_PERMISSIONS_nonempty by blast
  then show "requireResourceAccess res req = Next"
    using requireResourceAccess_own [OF assms, of res] h by simp
qed


lemma hasPermission_True_valid: "hasPermission r p = Inr True \<Longrightarrow> isValidRole r"
  by (auto simp: hasPermission_def js_get_def ROLE_PERMISSIONS_def isValidRole_def ROLES_def
      split: if_splits)

lemma requireResourceAccess_invalid_role:
  "user req = Some u \<Longrightarrow> \<not> isValidRole (role u) \<Longrightarrow>
     requireResourceAccess res req =
       Respond 403 [(''error'', Str ''Forbidden''), (''message'', Str ''Invalid user role'')]"
  by (simp add: requireResourceAccess_def)

lemma getResourcePermission_JStr:
  "getResourcePermission res a = Some (JStr p) \<Longrightarrow>
     \<exists>e. map_of RESOURCE_PERMISSIONS res = Some e \<and> e a = Some p"
  by (auto simp: getResourcePermission_def js_get_def builtin_member_def
      split: option.splits if_splits)

lemma requireResourceAccess_verb_any:
  assumes "user req = Some u"
    and "js_get methodToAction (http_method req) = Own a"
  shows "(requireResourceAccess res req = Next \<longleftrightarrow>
            (\<exists>e p. map_of RESOURCE_PERMISSIONS res = Some e \<and> e a = Some p
               \<and> hasPermission (role u) (JStr p) = Inr True))
     \<and> (requireResourceAccess res req \<noteq> Next
          \<longrightarrow> (\<exists>b. requireResourceAccess res req = Respond 403 b))"
proof (cases "isValidRole (role u)")
  case False
  from requireResourceAccess_invalid_role [OF assms(1) False]
  have r: "requireResourceAccess res req =
       Respond 403 [(''error'', Str ''Forbidden''), (''message'', Str ''Invalid user role'')]" .
  have "\<And>p. hasPermission (role u) p \<noteq> Inr True"
    using False hasPermission_True_valid by blast
  then show ?thesis using r by simp
next
  case True
  note own = requireResourceAccess_own [OF assms(1) True assms(2), of res]
  show ?thesis
  proof (cases "getResourcePermission res a")
    case None
    have "\<not> (\<exists>e p. map_of RESOURCE_PERMISSIONS res = Some e \<and> e a = Some p
               \<and> hasPermission (role u) (JStr p) = Inr True)"
    proof
      assume "\<exists>e p. map_of RESOURCE_PERMISSIONS res = Some e \<and> e a = Some p
               \<and> hasPermission (role u) (JStr p) = Inr True"
      then obtain e p where "map_of RESOURCE_PERMISSIONS res = Some e" "e a = Some p" by blast
      then have "getResourcePermission res a = Some (JStr p)"
        using getResourcePermission_entry RESOURCE_PERMISSIONS_nonempty by blast
      with None show False by simp
    qed
    then show ?thesis using own None by simp
  next
    case (Some q)
    show ?thesis
    proof (cases q)
      case (JBuiltin x)
      have "\<not> (\<exists>e p. map_of RESOURCE_PERMISSIONS res = Some e \<and> e a = Some p
               \<and> hasPermission (role u) (JStr p) = Inr True)"
      proof
        assume "\<exists>e p. map_of RESOURCE_PERMISSIONS res = Some e \<and> e a = Some p
               \<and> hasPermission (role u) (JStr p) = Inr True"
        then obtain e p where "map_of RESOURCE_PERMISSIONS res = Some e" "e a = Some p" by blast
        then have "getResourcePermission res a = Some (JStr p)"
          using getResourcePermission_entry RESOURCE_PERMISSIONS_nonempty by blast
        with Some JBuiltin show False by simp
      qed
      then show ?thesis
        using own Some JBuiltin hasPermission_builtin [OF True, of x] by simp
    next
      case (JStr p)
      from getResourcePermission_JStr Some JStr
      obtain e where e: "map_of RESOURCE_PERMISSIONS res = Some e" "e a = Some p" by blast
      have iff: "(\<exists>e p. map_of RESOURCE_PERMISSIONS res = Some e \<and> e a = Some p
               \<and> hasPermission (role u) (JStr p) = Inr True)
          \<longleftrightarrow> hasPermission (role u) (JStr p) = Inr True"
        using e by auto
      show ?thesis
        unfolding iff using own Some JStr by simp
    qed
  qed
qed


lemma requireResourceAccess_verb_all:
  assumes "user req = Some u"
    and "js_get methodToAction (http_method req) = Own a"
  shows "(requireResourceAccess res req = Next \<longleftrightarrow>
             (\<exists>e p. map_of RESOURCE_PERMISSIONS res = Some e \<and> e a = Some p
                \<and> hasPermission (role u) (JStr p) = Inr True))
          \<and> (requireResourceAccess res req \<noteq> Next
             \<longrightarrow> (\<exists>b. requireResourceAccess res req = Respond 403 b))
          \<and> ((map_of RESOURCE_PERMISSIONS res = None
              \<or> (\<exists>e. map_of RESOURCE_PERMISSIONS res = Some e \<and> e a = None))
             \<longrightarrow> (\<exists>b. requireResourceAccess res req = Respond 403 b))
          \<and> (\<forall>e p. map_of RESOURCE_PERMISSIONS res = Some e \<and> e a = Some p
                \<and> hasPermission (role u) (JStr p) \<noteq> Inr True
              \<longrightarrow> (\<exists>b. requireResourceAccess res req = Respond 403 b))
          \<and> (\<forall>e p. isValidRole (role u)
                \<and> map_of RESOURCE_PERMISSIONS res = Some e \<and> e a = Some p
                \<and> hasPermission (role u) (JStr p) = Inr False
              \<longrightarrow> requireResourceAccess res req =
                    Respond 403 [(''error'', Str ''Forbidden''),
                      (''message'', Str ''Insufficient permissions for this action''),
                      (''required'', Str p)])"
proof -
  note any = requireResourceAccess_verb_any [OF assms, of res]
  note iff = any [THEN conjunct1]
  note not_next = any [THEN conjunct2]
  have c3: "(map_of RESOURCE_PERMISSIONS res = None
              \<or> (\<exists>e. map_of RESOURCE_PERMISSIONS res = Some e \<and> e a = None))
             \<longrightarrow> (\<exists>b. requireResourceAccess res req = Respond 403 b)"
  proof
    assume "map_of RESOURCE_PERMISSIONS res = None
              \<or> (\<exists>e. map_of RESOURCE_PERMISSIONS res = Some e \<and> e a = None)"
    then have "\<not> (\<exists>e p. map_of RESOURCE_PERMISSIONS res = Some e \<and> e a = Some p
                \<and> hasPermission (role u) (JStr p) = Inr True)"
      by auto
    with iff have "requireResourceAccess res req \<noteq> Next" by simp
    with not_next show "\<exists>b. requireResourceAccess res req = Respond 403 b" by (rule mp)
  qed
  have c4: "\<forall>e p. map_of RESOURCE_PERMISSIONS res = Some e \<and> e a = Some p
                \<and> hasPermission (role u) (JStr p) \<noteq> Inr True
              \<longrightarrow> (\<exists>b. requireResourceAccess res req = Respond 403 b)"
  proof (intro allI impI)
    fix e p
    assume "map_of RESOURCE_PERMISSIONS res = Some e \<and> e a = Some p
                \<and> hasPermission (role u) (JStr p) \<noteq> Inr True"
    then have "\<not> (\<exists>e p. map_of RESOURCE_PERMISSIONS res = Some e \<and> e a = Some p
                \<and> hasPermission (role u) (JStr p) = Inr True)"
      by auto
    with iff have "requireResourceAccess res req \<noteq> Next" by simp
    with not_next show "\<exists>b. requireResourceAccess res req = Respond 403 b" by (rule mp)
  qed
  have c5: "\<forall>e p. isValidRole (role u)
                \<and> map_of RESOURCE_PERMISSIONS res = Some e \<and> e a = Some p
                \<and> hasPermission (role u) (JStr p) = Inr False
              \<longrightarrow> requireResourceAccess res req =
                    Respond 403 [(''error'', Str ''Forbidden''),
                      (''message'', Str ''Insufficient permissions for this action''),
                      (''required'', Str p)]"
  proof (intro allI impI)
    fix e p
    assume h: "isValidRole (role u)
                \<and> map_of RESOURCE_PERMISSIONS res = Some e \<and> e a = Some p
                \<and> hasPermission (role u) (JStr p) = Inr False"
    then have v: "isValidRole (role u)" by simp
    from requireResourceAccess_verb [OF assms(1) v assms(2), of res, THEN conjunct2, THEN conjunct1]
      h
    show "requireResourceAccess res req =
                    Respond 403 [(''error'', Str ''Forbidden''),
                      (''message'', Str ''Insufficient permissions for this action''),
                      (''required'', Str p)]"
      by blast
  qed
  from iff not_next c3 c4 c5 show ?thesis by (intro conjI)
qed

text \<open>
  C2. For a request with an identity, \<^verbatim>\<open>requireResourceAccess\<close> first checks the
  identity's role: a role outside the enumeration is answered 403 "Invalid user role"
  whatever the verb. It reads GET as read, POST as create, PUT and PATCH as update and
  DELETE as delete: under each of these verbs the request passes exactly when the
  Resource-Action Map names a permission for the resource and that action and the role
  holds it, and is answered 403 otherwise, so for every role, admin included, when the
  map has no entry or a null entry, and when the role lacks the mapped permission (the
  body then names the permission, for an enumerated role). For an enumerated role any
  other verb is answered 405; the verbs an HTTP server receives are upper-case, so none
  names a member of \<^verbatim>\<open>Object.prototype\<close>, which is all the theorem asks of such a
  verb. Updating or deleting \<^verbatim>\<open>audit-logs\<close> is denied for every role.
\<close>

theorem requireResourceAccess_verbs_and_denials:
  assumes "user req = Some u"
  shows
    "(\<not> isValidRole (role u) \<longrightarrow>
        requireResourceAccess res req =
          Respond 403 [(''error'', Str ''Forbidden''), (''message'', Str ''Invalid user role'')])
     \<and> (\<forall>(m, a) \<in> {(''GET'', Read), (''POST'', Create), (''PUT'', Update), (''PATCH'', Update),
                  (''DELETE'', Delete)}.
        http_method req = m \<longrightarrow>
          (requireResourceAccess res req = Next \<longleftrightarrow>
             (\<exists>e p. map_of RESOURCE_PERMISSIONS res = Some e \<and> e a = Some p
                \<and> hasPermission (role u) (JStr p) = Inr True))
          \<and> (requireResourceAccess res req \<noteq> Next
             \<longrightarrow> (\<exists>b. requireResourceAccess res req = Respond 403 b))
          \<and> ((map_of RESOURCE_PERMISSIONS res = None
              \<or> (\<exists>e. map_of RESOURCE_PERMISSIONS res = Some e \<and> e a = None))
             \<longrightarrow> (\<exists>b. requireResourceAccess res req = Respond 403 b))
          \<and> (\<forall>e p. map_of RESOURCE_PERMISSIONS res = Some e \<and> e a = Some p
                \<and> hasPermission (role u) (JStr p) \<noteq> Inr True
              \<longrightarrow> (\<exists>b. requireResourceAccess res req = Respond 403 b))
          \<and> (\<forall>e p. isValidRole (role u)
                \<and> map_of RESOURCE_PERMISSIONS res = Some e \<and> e a = Some p
                \<and> hasPermission (role u) (JStr p) = Inr False
              \<longrightarrow> requireResourceAccess res req =
                    Respond 403 [(''error'', Str ''Forbidden''),
                      (''message'', Str ''Insufficient permissions for this action''),
                      (''required'', Str p)]))
     \<and> (isValidRole (role u)
          \<and> http_method req \<notin> {''GET'', ''POST'', ''PUT'', ''PATCH'', ''DELETE''}
          \<and> http_method req \<notin> set object_prototype_keys
        \<longrightarrow> requireResourceAccess res req =
              Respond 405 [(''error'', Str ''Method Not Allowed''),
                (''message'', Str (''HTTP method '' @ http_method req @ '' is not supported''))])
     \<and> (http_method req \<in> {''PUT'', ''PATCH'', ''DELETE''}
        \<longrightarrow> (\<exists>b. requireResourceAccess ''audit-logs'' req = Respond 403 b))
     \<and> (isValidRole (role u) \<and> http_method req \<in> {''PUT'', ''PATCH'', ''DELETE''}
        \<longrightarrow> requireResourceAccess ''audit-logs'' req =
              Respond 403 [(''error'', Str ''Forbidden''),
                (''message'', Str ''This action is not permitted on this resource'')])"
proof -
  have c1: "\<not> isValidRole (role u) \<longrightarrow>
        requireResourceAccess res req =
          Respond 403 [(''error'', Str ''Forbidden''), (''message'', Str ''Invalid user role'')]"
    using requireResourceAccess_invalid_role [OF assms] by blast
  have c2: "\<forall>(m, a) \<in> {(''GET'', Read), (''POST'', Create), (''PUT'', Update), (''PATCH'', Update),
                  (''DELETE'', Delete)}.
        http_method req = m \<longrightarrow>
          (requireResourceAccess res req = Next \<longleftrightarrow>
             (\<exists>e p. map_of RESOURCE_PERMISSIONS res = Some e \<and> e a = Some p
                \<and> hasPermission (role u) (JStr p) = Inr True))
          \<and> (requireResourceAccess res req \<noteq> Next
             \<longrightarrow> (\<exists>b. requireResourceAccess res req = Respond 403 b))
          \<and> ((map_of RESOURCE_PERMISSIONS res = None
              \<or> (\<exists>e. map_of RESOURCE_PERMISSIONS res = Some e \<and> e a = None))
             \<longrightarrow> (\<exists>b. requireResourceAccess res req = Respond 403 b))
          \<and> (\<forall>e p. map_of RESOURCE_PERMISSIONS res = Some e \<and> e a = Some p
                \<and> hasPermission (role u) (JStr p) \<noteq> Inr True
              \<longrightarrow> (\<exists>b. requireResourceAccess res req = Respond 403 b))
          \<and> (\<forall>e p. isValidRole (role u)
                \<and> map_of RESOURCE_PERMISSIONS res = Some e \<and> e a = Some p
                \<and> hasPermission (role u) (JStr p) = Inr False
              \<longrightarrow> requireResourceAccess res req =
                    Respond 403 [(''error'', Str ''Forbidden''),
                      (''message'', Str ''Insufficient permissions for this action''),
                      (''required'', Str p)])"
  proof (intro ballI)
    fix x
    assume x: "x \<in> {(''GET'', Read), (''POST'', Create), (''PUT'', Update), (''PATCH'', Update),
                  (''DELETE'', Delete)}"
    obtain m a where ma: "x = (m, a)" by (cases x)
    have own: "http_method req = m \<Longrightarrow> js_get methodToAction (http_method req) = Own a"
      using x ma by (auto simp: methodToAction_own)
    show "case x of (m, a) \<Rightarrow>
        http_method req = m \<longrightarrow>
          (requireResourceAccess res req = Next \<longleftrightarrow>
             (\<exists>e p. map_of RESOURCE_PERMISSIONS res = Some e \<and> e a = Some p
                \<and> hasPermission (role u) (JStr p) = Inr True))
          \<and> (requireResourceAccess res req \<noteq> Next
             \<longrightarrow> (\<exists>b. requireResourceAccess res req = Respond 403 b))
          \<and> ((map_of RESOURCE_PERMISSIONS res = None
              \<or> (\<exists>e. map_of RESOURCE_PERMISSIONS res = Some e \<and> e a = None))
             \<longrightarrow> (\<exists>b. requireResourceAccess res req = Respond 403 b))
          \<and> (\<forall>e p. map_of RESOURCE_PERMISSIONS res = Some e \<and> e a = Some p
                \<and> hasPermission (role u) (JStr p) \<noteq> Inr True
              \<longrightarrow> (\<exists>b. requireResourceAccess res req = Respond 403 b))
          \<and> (\<forall>e p. isValidRole (role u)
                \<and> map_of RESOURCE_PERMISSIONS res = Some e \<and> e a = Some p
                \<and> hasPermission (role u) (JStr p) = Inr False
              \<longrightarrow> requireResourceAccess res req =
                    Respond 403 [(''error'', Str ''Forbidden''),
                      (''message'', Str ''Insufficient permissions for this action''),
                      (''required'', Str p)])"
      unfolding ma prod.case
    proof
      assume "http_method req = m"
      then have "js_get methodToAction (http_method req) = Own a" by (rule own)
      then show "(requireResourceAccess res req = Next \<longleftrightarrow>
             (\<exists>e p. map_of RESOURCE_PERMISSIONS res = Some e \<and> e a = Some p
                \<and> hasPermission (role u) (JStr p) = Inr True))
          \<and> (requireResourceAccess res req \<noteq> Next
             \<longrightarrow> (\<exists>b. requireResourceAccess res req = Respond 403 b))
          \<and> ((map_of RESOURCE_PERMISSIONS res = None
              \<or> (\<exists>e. map_of RESOURCE_PERMISSIONS res = Some e \<and> e a = None))
             \<longrightarrow> (\<exists>b. requireResourceAccess res req = Respond 403 b))
          \<and> (\<forall>e p. map_of RESOURCE_PERMISSIONS res = Some e \<and> e a = Some p
                \<and> hasPermission (role u) (JStr p) \<noteq> Inr True
              \<longrightarrow> (\<exists>b. requireResourceAccess res req = Respond 403 b))
          \<and> (\<forall>e p. isValidRole (role u)
                \<and> map_of RESOURCE_PERMISSIONS res = Some e \<and> e a = Some p
                \<and> hasPermission (role u) (JStr p) = Inr False
              \<longrightarrow> requireResourceAccess res req =
                    Respond 403 [(''error'', Str ''Forbidden''),
                      (''message'', Str ''Insufficient permissions for this action''),
                      (''required'', Str p)])"
        by (rule requireResourceAccess_verb_all [OF assms])
    qed
  qed
  have c3: "isValidRole (role u)
          \<and> http_method req \<notin> {''GET'', ''POST'', ''PUT'', ''PATCH'', ''DELETE''}
          \<and> http_method req \<notin> set object_prototype_keys
        \<longrightarrow> requireResourceAccess res req =
              Respond 405 [(''error'', Str ''Method Not Allowed''),
                (''message'', Str (''HTTP method '' @ http_method req @ '' is not supported''))]"
  proof
    assume h: "isValidRole (role u)
          \<and> http_method req \<notin> {''GET'', ''POST'', ''PUT'', ''PATCH'', ''DELETE''}
          \<and> http_method req \<notin> set object_prototype_keys"
    then have "js_get methodToAction (http_method req) = Absent"
      using methodToAction_absent by blast
    then show "requireResourceAccess res req =
              Respond 405 [(''error'', Str ''Method Not Allowed''),
                (''message'', Str (''HTTP method '' @ http_method req @ '' is not supported''))]"
      using assms h isValidRole_nonempty [of "role u"] by (simp add: requireResourceAccess_def)
  qed
  have none: "getResourcePermission ''audit-logs'' Update = None"
    "getResourcePermission ''audit-logs'' Delete = None"
    by (simp_all add: getResourcePermission_def js_get_def RESOURCE_PERMISSIONS_def)
  have c5: "isValidRole (role u) \<and> http_method req \<in> {''PUT'', ''PATCH'', ''DELETE''}
        \<longrightarrow> requireResourceAccess ''audit-logs'' req =
              Respond 403 [(''error'', Str ''Forbidden''),
                (''message'', Str ''This action is not permitted on this resource'')]"
  proof
    assume h: "isValidRole (role u) \<and> http_method req \<in> {''PUT'', ''PATCH'', ''DELETE''}"
    then have v: "isValidRole (role u)" by simp
    from h have "js_get methodToAction (http_method req) = Own Update
        \<or> js_get methodToAction (http_method req) = Own Delete"
      by (auto simp: methodToAction_own)
    then show "requireResourceAccess ''audit-logs'' req =
              Respond 403 [(''error'', Str ''Forbidden''),
                (''message'', Str ''This action is not permitted on this resource'')]"
      using requireResourceAccess_own [OF assms v, of _ "''audit-logs''"] none by auto
  qed
  have c4: "http_method req \<in> {''PUT'', ''PATCH'', ''DELETE''}
        \<longrightarrow> (\<exists>b. requireResourceAccess ''audit-logs'' req = Respond 403 b)"
  proof (cases "isValidRole (role u)")
    case True
    with c5 show ?thesis by simp
  next
    case False
    with requireResourceAccess_invalid_role [OF assms False, of "''audit-logs''"]
    show ?thesis by simp
  qed
  from c1 c2 c3 c4 c5 show ?thesis by (intro conjI)
qed

theorem requireResourceAccess_verbs_and_denials_witness:
  "requireResourceAccess ''contract-metrics''
      \<lparr>cookies_accessToken = None, cookies_refreshToken = None, http_method = ''POST'',
       user = Some \<lparr>uid = ''3'', email = ''viewer@lumanagi.com'', role = ''viewer''\<rparr>\<rparr>
     = Respond 403 [(''error'', Str ''Forbidden''),
         (''message'', Str ''Insufficient permissions for this action''),
         (''required'', Str ''contracts:create'')]
   \<and> requireResourceAccess ''contract-metrics''
      \<lparr>cookies_accessToken = None, cookies_refreshToken = None, http_method = ''GET'',
       user = Some \<lparr>uid = ''3'', email = ''viewer@lumanagi.com'', role = ''viewer''\<rparr>\<rparr>
     = Next
   \<and> requireResourceAccess ''audit-logs''
      \<lparr>cookies_accessToken = None, cookies_refreshToken = None, http_method = ''DELETE'',
       user = Some \<lparr>uid = ''1'', email = ''admin@lumanagi.com'', role = ''admin''\<rparr>\<rparr>
     = Respond 403 [(''error'', Str ''Forbidden''),
         (''message'', Str ''This action is not permitted on this resource'')]
   \<and> (\<exists>b. requireResourceAccess ''invoices''
      \<lparr>cookies_accessToken = None, cookies_refreshToken = None, http_method = ''GET'',
       user = Some \<lparr>uid = ''1'', email = ''admin@lumanagi.com'', role = ''admin''\<rparr>\<rparr>
     = Respond 403 b)
   \<and> requireResourceAccess ''alerts''
      \<lparr>cookies_accessToken = None, cookies_refreshToken = None, http_method = ''OPTIONS'',
       user = Some \<lparr>uid = ''1'', email = ''admin@lumanagi.com'', role = ''admin''\<rparr>\<rparr>
     = Respond 405 [(''error'', Str ''Method Not Allowed''),
         (''message'', Str ''HTTP method OPTIONS is not supported'')]
   \<and> requireResourceAccess ''alerts''
      \<lparr>cookies_accessToken = None, cookies_refreshToken = None, http_method = ''GET'',
       user = Some \<lparr>uid = ''7'', email = ''ops@lumanagi.com'', role = ''superadmin''\<rparr>\<rparr>
     = Respond 403 [(''error'', Str ''Forbidden''), (''message'', Str ''Invalid user role'')]
   \<and> (\<exists>b. requireResourceAccess ''audit-logs''
      \<lparr>cookies_accessToken = None, cookies_refreshToken = None, http_method = ''DELETE'',
       user = Some \<lparr>uid = ''7'', email = ''ops@lumanagi.com'', role = ''superadmin''\<rparr>\<rparr>
     = Respond 403 b)"
proof -
  let ?viewer = "\<lparr>uid = ''3'', email = ''viewer@lumanagi.com'', role = ''viewer''\<rparr>"
  let ?admin = "\<lparr>uid = ''1'', email = ''admin@lumanagi.com'', role = ''admin''\<rparr>"
  let ?ops = "\<lparr>uid = ''7'', email = ''ops@lumanagi.com'', role = ''superadmin''\<rparr>"
  let ?rq = "\<lambda>m u. \<lparr>cookies_accessToken = None, cookies_refreshToken = None, http_method = m,
       user = Some u\<rparr>"
  let ?pairs = "{(''GET'', Read), (''POST'', Create), (''PUT'', Update), (''PATCH'', Update),
                  (''DELETE'', Delete)}"
  have valid: "isValidRole (role ?viewer)" "isValidRole (role ?admin)"
    by (simp_all add: isValidRole_def ROLES_def)
  have invalid: "\<not> isValidRole (role ?ops)"
    by (simp add: isValidRole_def ROLES_def)
  have contract: "map_of RESOURCE_PERMISSIONS ''contract-metrics'' =
      Some (entry (Some ''contracts:create'') (Some ''contracts:read'')
               (Some ''contracts:update'') (Some ''contracts:delete''))"
    by (simp add: RESOURCE_PERMISSIONS_def)
  have invoices: "map_of RESOURCE_PERMISSIONS ''invoices'' = None"
    by (simp add: RESOURCE_PERMISSIONS_def)
  have lacks: "hasPermission (role ?viewer) (JStr ''contracts:create'') = Inr False"
    by (simp add: hasPermission_valid VIEWER_PERMISSIONS_def)
  have holds: "hasPermission (role ?viewer) (JStr ''contracts:read'') = Inr True"
    by (simp add: hasPermission_valid VIEWER_PERMISSIONS_def)
  have mem_post: "(''POST'', Create) \<in> ?pairs" by simp
  have mem_get: "(''GET'', Read) \<in> ?pairs" by simp

  have u_post: "user (?rq ''POST'' ?viewer) = Some ?viewer" by simp
  have v_post: "http_method (?rq ''POST'' ?viewer) = ''POST''" by simp
  note P = requireResourceAccess_verbs_and_denials
    [OF u_post, where res = "''contract-metrics''", THEN conjunct2, THEN conjunct1,
     THEN bspec, OF mem_post, unfolded prod.case, THEN mp, OF v_post]
  have pre_post: "isValidRole (role ?viewer)
      \<and> map_of RESOURCE_PERMISSIONS ''contract-metrics'' =
          Some (entry (Some ''contracts:create'') (Some ''contracts:read'')
               (Some ''contracts:update'') (Some ''contracts:delete''))
      \<and> entry (Some ''contracts:create'') (Some ''contracts:read'')
               (Some ''contracts:update'') (Some ''contracts:delete'') Create
          = Some ''contracts:create''
      \<and> hasPermission (role ?viewer) (JStr ''contracts:create'') = Inr False"
    using valid(1) contract lacks by simp
  have post: "requireResourceAccess ''contract-metrics'' (?rq ''POST'' ?viewer)
     = Respond 403 [(''error'', Str ''Forbidden''),
         (''message'', Str ''Insufficient permissions for this action''),
         (''required'', Str ''contracts:create'')]"
    by (rule P [THEN conjunct2, THEN conjunct2, THEN conjunct2, THEN conjunct2,
          THEN spec, THEN spec, THEN mp, OF pre_post])

  have u_get: "user (?rq ''GET'' ?viewer) = Some ?viewer" by simp
  have v_get: "http_method (?rq ''GET'' ?viewer) = ''GET''" by simp
  note G = requireResourceAccess_verbs_and_denials
    [OF u_get, where res = "''contract-metrics''", THEN conjunct2, THEN conjunct1,
     THEN bspec, OF mem_get, unfolded prod.case, THEN mp, OF v_get]
  have pre_get: "\<exists>e p. map_of RESOURCE_PERMISSIONS ''contract-metrics'' = Some e \<and> e Read = Some p
      \<and> hasPermission (role ?viewer) (JStr p) = Inr True"
  proof (intro exI conjI)
    show "map_of RESOURCE_PERMISSIONS ''contract-metrics'' =
      Some (entry (Some ''contracts:create'') (Some ''contracts:read'')
               (Some ''contracts:update'') (Some ''contracts:delete''))"
      by (rule contract)
    show "entry (Some ''contracts:create'') (Some ''contracts:read'')
               (Some ''contracts:update'') (Some ''contracts:delete'') Read
       = Some ''contracts:read''"
      by simp
    show "hasPermission (role ?viewer) (JStr ''contracts:read'') = Inr True"
      by (rule holds)
  qed
  have get: "requireResourceAccess ''contract-metrics'' (?rq ''GET'' ?viewer) = Next"
    by (rule G [THEN conjunct1, THEN iffD2, OF pre_get])

  have u_del: "user (?rq ''DELETE'' ?admin) = Some ?admin" by simp
  have pre_del: "isValidRole (role ?admin)
      \<and> http_method (?rq ''DELETE'' ?admin) \<in> {''PUT'', ''PATCH'', ''DELETE''}"
    using valid(2) by simp
  have audit: "requireResourceAccess ''audit-logs'' (?rq ''DELETE'' ?admin)
     = Respond 403 [(''error'', Str ''Forbidden''),
         (''message'', Str ''This action is not permitted on this resource'')]"
    by (rule requireResourceAccess_verbs_and_denials
          [OF u_del, where res = "''alerts''", THEN conjunct2, THEN conjunct2, THEN conjunct2,
           THEN conjunct2, THEN mp, OF pre_del])

  have u_inv: "user (?rq ''GET'' ?admin) = Some ?admin" by simp
  have v_inv: "http_method (?rq ''GET'' ?admin) = ''GET''" by simp
  note I = requireResourceAccess_verbs_and_denials
    [OF u_inv, where res = "''invoices''", THEN conjunct2, THEN conjunct1,
     THEN bspec, OF mem_get, unfolded prod.case, THEN mp, OF v_inv]
  have pre_inv: "map_of RESOURCE_PERMISSIONS ''invoices'' = None
      \<or> (\<exists>e. map_of RESOURCE_PERMISSIONS ''invoices'' = Some e \<and> e Read = None)"
    using invoices by (rule disjI1)
  have inv: "\<exists>b. requireResourceAccess ''invoices'' (?rq ''GET'' ?admin) = Respond 403 b"
    by (rule I [THEN conjunct2, THEN conjunct2, THEN conjunct1, THEN mp, OF pre_inv])

  have u_opt: "user (?rq ''OPTIONS'' ?admin) = Some ?admin" by simp
  have pre_opt: "isValidRole (role ?admin)
      \<and> http_method (?rq ''OPTIONS'' ?admin) \<notin> {''GET'', ''POST'', ''PUT'', ''PATCH'', ''DELETE''}
      \<and> http_method (?rq ''OPTIONS'' ?admin) \<notin> set object_prototype_keys"
    using valid(2) by (simp add: object_prototype_keys_def)
  have opt: "requireResourceAccess ''alerts'' (?rq ''OPTIONS'' ?admin)
     = Respond 405 [(''error'', Str ''Method Not Allowed''),
         (''message'', Str ''HTTP method OPTIONS is not supported'')]"
    using requireResourceAccess_verbs_and_denials
          [OF u_opt, where res = "''alerts''", THEN conjunct2, THEN conjunct2, THEN conjunct1,
           THEN mp, OF pre_opt]
    by simp

  have u_ops: "user (?rq ''GET'' ?ops) = Some ?ops" by simp
  have ops: "requireResourceAccess ''alerts'' (?rq ''GET'' ?ops)
     = Respond 403 [(''error'', Str ''Forbidden''), (''message'', Str ''Invalid user role'')]"
    by (rule requireResourceAccess_verbs_and_denials
          [OF u_ops, where res = "''alerts''", THEN conjunct1, THEN mp, OF invalid])

  have u_ops_del: "user (?rq ''DELETE'' ?ops) = Some ?ops" by simp
  have pre_ops_del: "http_method (?rq ''DELETE'' ?ops) \<in> {''PUT'', ''PATCH'', ''DELETE''}"
    by simp
  have ops_del: "\<exists>b. requireResourceAccess ''audit-logs'' (?rq ''DELETE'' ?ops) = Respond 403 b"
    by (rule requireResourceAccess_verbs_and_denials
          [OF u_ops_del, where res = "''alerts''", THEN conjunct2, THEN conjunct2,
           THEN conjunct2, THEN conjunct1, THEN mp, OF pre_ops_del])

  show ?thesis
    by (intro conjI) (rule post, rule get, rule audit, rule inv, rule opt, rule ops, rule ops_del)
qed

text \<open>
  The 405 is not sent for every request with an identity: the role is checked before
  the verb is read, so an OPTIONS request whose identity has the role
  \<^verbatim>\<open>superadmin\<close> is answered 403, not 405.
\<close>

theorem requireResourceAccess_invalid_role_counterexample:
  "''OPTIONS'' \<notin> {''GET'', ''POST'', ''PUT'', ''PATCH'', ''DELETE''}
   \<and> requireResourceAccess ''alerts''
        \<lparr>cookies_accessToken = None, cookies_refreshToken = None, http_method = ''OPTIONS'',
         user = Some \<lparr>uid = ''7'', email = ''ops@lumanagi.com'', role = ''superadmin''\<rparr>\<rparr>
       = Respond 403 [(''error'', Str ''Forbidden''), (''message'', Str ''Invalid user role'')]
   \<and> requireResourceAccess ''alerts''
        \<lparr>cookies_accessToken = None, cookies_refreshToken = None, http_method = ''OPTIONS'',
         user = Some \<lparr>uid = ''7'', email = ''ops@lumanagi.com'', role = ''superadmin''\<rparr>\<rparr>
       \<noteq> Respond 405 [(''error'', Str ''Method Not Allowed''),
             (''message'', Str ''HTTP method OPTIONS is not supported'')]"
  by (simp add: requireResourceAccess_def isValidRole_def ROLES_def)

text \<open>
  C6. \<^verbatim>\<open>requireOwnership\<close>: a request without identity is answered 401 whatever the
  predicate is; an admin identity passes whatever the predicate does (resolve, reject
  or never settle); for any other identity a predicate resolving to false gives 403 and
  a predicate that throws gives 500, never a pass.
\<close>

theorem requireOwnership_gate:
  "(user req = None \<longrightarrow>
      requireOwnership chk req =
        (Respond 401 [(''error'', Str ''Unauthorized''), (''message'', Str ''Authentication required'')],
         []))
   \<and> (\<forall>u. user req = Some u \<and> role u = ''admin'' \<longrightarrow> requireOwnership chk req = (Next, []))
   \<and> (\<forall>u. user req = Some u \<and> role u \<noteq> ''admin'' \<and> chk req = Resolves False \<longrightarrow>
         requireOwnership chk req =
           (Respond 403 [(''error'', Str ''Forbidden''),
              (''message'', Str ''You can only access your own resources'')], []))
   \<and> (\<forall>u e. user req = Some u \<and> role u \<noteq> ''admin'' \<and> chk req = Rejects e \<longrightarrow>
         fst (requireOwnership chk req) =
           Respond 500 [(''error'', Str ''Internal Server Error''),
             (''message'', Str ''Failed to verify resource ownership'')])"
  by (simp add: requireOwnership_def)

theorem requireOwnership_gate_witness:
  "requireOwnership (\<lambda>r. Rejects ''lookup failed'')
      \<lparr>cookies_accessToken = None, cookies_refreshToken = None, http_method = ''PUT'', user = None\<rparr>
     = (Respond 401 [(''error'', Str ''Unauthorized''), (''message'', Str ''Authentication required'')],
        [])
   \<and> requireOwnership (\<lambda>r. Rejects ''lookup failed'')
      \<lparr>cookies_accessToken = None, cookies_refreshToken = None, http_method = ''PUT'',
       user = Some \<lparr>uid = ''1'', email = ''admin@lumanagi.com'', role = ''admin''\<rparr>\<rparr>
     = (Next, [])
   \<and> requireOwnership (\<lambda>r. NeverSettles)
      \<lparr>cookies_accessToken = None, cookies_refreshToken = None, http_method = ''PUT'',
       user = Some \<lparr>uid = ''1'', email = ''admin@lumanagi.com'', role = ''admin''\<rparr>\<rparr>
     = (Next, [])
   \<and> requireOwnership (\<lambda>r. Resolves False)
      \<lparr>cookies_accessToken = None, cookies_refreshToken = None, http_method = ''PUT'',
       user = Some \<lparr>uid = ''2'', email = ''user@lumanagi.com'', role = ''user''\<rparr>\<rparr>
     = (Respond 403 [(''error'', Str ''Forbidden''),
          (''message'', Str ''You can only access your own resources'')], [])
   \<and> fst (requireOwnership (\<lambda>r. Rejects ''lookup failed'')
      \<lparr>cookies_accessToken = None, cookies_refreshToken = None, http_method = ''PUT'',
       user = Some \<lparr>uid = ''2'', email = ''user@lumanagi.com'', role = ''user''\<rparr>\<rparr>)
     = Respond 500 [(''error'', Str ''Internal Server Error''),
         (''message'', Str ''Failed to verify resource ownership'')]"
proof -
  let ?admin = "\<lparr>uid = ''1'', email = ''admin@lumanagi.com'', role = ''admin''\<rparr>"
  let ?u = "\<lparr>uid = ''2'', email = ''user@lumanagi.com'', role = ''user''\<rparr>"
  let ?rq = "\<lambda>u. \<lparr>cookies_accessToken = None, cookies_refreshToken = None, http_method = ''PUT'',
       user = u\<rparr>"
  have a: "requireOwnership (\<lambda>r. Rejects ''lookup failed'') (?rq None)
     = (Respond 401 [(''error'', Str ''Unauthorized''), (''message'', Str ''Authentication required'')],
        [])"
    using requireOwnership_gate [of "?rq None" "\<lambda>r. Rejects ''lookup failed''"] by simp
  have b: "requireOwnership (\<lambda>r. Rejects ''lookup failed'') (?rq (Some ?admin)) = (Next, [])"
    using requireOwnership_gate [of "?rq (Some ?admin)" "\<lambda>r. Rejects ''lookup failed''"] by simp
  have c: "requireOwnership (\<lambda>r. NeverSettles) (?rq (Some ?admin)) = (Next, [])"
    using requireOwnership_gate [of "?rq (Some ?admin)" "\<lambda>r. NeverSettles"] by simp
  have d: "requireOwnership (\<lambda>r. Resolves False) (?rq (Some ?u))
     = (Respond 403 [(''error'', Str ''Forbidden''),
          (''message'', Str ''You can only access your own resources'')], [])"
    using requireOwnership_gate [of "?rq (Some ?u)" "\<lambda>r. Resolves False"] by simp
  have e: "fst (requireOwnership (\<lambda>r. Rejects ''lookup failed'') (?rq (Some ?u)))
     = Respond 500 [(''error'', Str ''Internal Server Error''),
         (''message'', Str ''Failed to verify resource ownership'')]"
    using requireOwnership_gate [of "?rq (Some ?u)" "\<lambda>r. Rejects ''lookup failed''"] by simp
  from a b c d e show ?thesis by simp
qed

section \<open>Properties of the authentication middleware\<close>

lemma show_clock: "show_nat 1700000000 = ''1700000000''"
  by (simp add: show_nat.simps)

lemma sample_verify:
  "jwt_verify sample_jwt ''expired'' (JWT_SECRET sample_env) n =
     Inl \<lparr>error_name = ''TokenExpiredError'', error_message = ''jwt expired''\<rparr>"
  "jwt_verify sample_jwt ''early'' (JWT_SECRET sample_env) n =
     Inl \<lparr>error_name = ''NotBeforeError'', error_message = ''jwt not active''\<rparr>"
  "jwt_verify sample_jwt ''garbage'' (JWT_SECRET sample_env) n =
     Inl \<lparr>error_name = ''JsonWebTokenError'', error_message = ''jwt malformed''\<rparr>"
  "jwt_verify sample_jwt ''access-secret.1.15m.1700000000'' (JWT_SECRET sample_env) n =
     Inr \<lparr>uid = ''1'', email = ''admin@lumanagi.com'', role = ''admin''\<rparr>"
  by (simp_all add: sample_jwt_def sample_env_def)

text \<open>
  C4. Strict mode, \<^verbatim>\<open>authenticateToken\<close>: without an access token cookie the answer is
  401 "Access token required"; when verification fails, 401 "Access token expired" for
  a TokenExpiredError, 401 "Invalid access token" for a JsonWebTokenError and 401
  "Authentication failed" for any other error; when it succeeds the decoded claim is
  attached to the request and the request continues.
\<close>

theorem authenticateToken_strict:
  "(falsy (cookies_accessToken req) \<longrightarrow>
      authenticateToken lib env now req =
        (Respond 401 [(''error'', Str ''Unauthorized''), (''message'', Str ''Access token required'')],
         req))
   \<and> (\<forall>t e. cookies_accessToken req = Some t \<and> t \<noteq> []
          \<and> jwt_verify lib t (JWT_SECRET env) now = Inl e \<longrightarrow>
        (error_name e = ''TokenExpiredError'' \<longrightarrow>
           authenticateToken lib env now req =
             (Respond 401 [(''error'', Str ''Unauthorized''),
                (''message'', Str ''Access token expired'')], req))
        \<and> (error_name e = ''JsonWebTokenError'' \<longrightarrow>
           authenticateToken lib env now req =
             (Respond 401 [(''error'', Str ''Unauthorized''),
                (''message'', Str ''Invalid access token'')], req))
        \<and> (error_name e \<noteq> ''TokenExpiredError'' \<and> error_name e \<noteq> ''JsonWebTokenError'' \<longrightarrow>
           authenticateToken lib env now req =
             (Respond 401 [(''error'', Str ''Unauthorized''),
                (''message'', Str ''Authentication failed'')], req)))
   \<and> (\<forall>t d. cookies_accessToken req = Some t \<and> t \<noteq> []
          \<and> jwt_verify lib t (JWT_SECRET env) now = Inr d \<longrightarrow>
        authenticateToken lib env now req = (Next, req\<lparr>user := Some d\<rparr>))"
  by (cases "cookies_accessToken req") (simp_all add: authenticateToken_def)

theorem authenticateToken_strict_witness:
  "authenticateToken sample_jwt sample_env 1700000100
      \<lparr>cookies_accessToken = None, cookies_refreshToken = None, http_method = ''GET'', user = None\<rparr>
     = (Respond 401 [(''error'', Str ''Unauthorized''), (''message'', Str ''Access token required'')],
        \<lparr>cookies_accessToken = None, cookies_refreshToken = None, http_method = ''GET'',
         user = None\<rparr>)
   \<and> fst (authenticateToken sample_jwt sample_env 1700000100
      \<lparr>cookies_accessToken = Some ''expired'', cookies_refreshToken = None, http_method = ''GET'',
       user = None\<rparr>)
     = Respond 401 [(''error'', Str ''Unauthorized''), (''message'', Str ''Access token expired'')]
   \<and> fst (authenticateToken sample_jwt sample_env 1700000100
      \<lparr>cookies_accessToken = Some ''garbage'', cookies_refreshToken = None, http_method = ''GET'',
       user = None\<rparr>)
     = Respond 401 [(''error'', Str ''Unauthorized''), (''message'', Str ''Invalid access token'')]
   \<and> fst (authenticateToken sample_jwt sample_env 1700000100
      \<lparr>cookies_accessToken = Some ''early'', cookies_refreshToken = None, http_method = ''GET'',
       user = None\<rparr>)
     = Respond 401 [(''error'', Str ''Unauthorized''), (''message'', Str ''Authentication failed'')]
   \<and> authenticateToken sample_jwt sample_env 1700000100
      \<lparr>cookies_accessToken = Some ''access-secret.1.15m.1700000000'', cookies_refreshToken = None,
       http_method = ''GET'', user = None\<rparr>
     = (Next,
        \<lparr>cookies_accessToken = Some ''access-secret.1.15m.1700000000'', cookies_refreshToken = None,
         http_method = ''GET'',
         user = Some \<lparr>uid = ''1'', email = ''admin@lumanagi.com'', role = ''admin''\<rparr>\<rparr>)"
proof -
  let ?rq = "\<lambda>c. \<lparr>cookies_accessToken = c, cookies_refreshToken = None, http_method = ''GET'',
       user = None\<rparr>"
  note T = authenticateToken_strict [of _ sample_jwt sample_env 1700000100]
  have a: "authenticateToken sample_jwt sample_env 1700000100 (?rq None)
     = (Respond 401 [(''error'', Str ''Unauthorized''), (''message'', Str ''Access token required'')],
        ?rq None)"
    using T [of "?rq None"] by simp
  have b: "fst (authenticateToken sample_jwt sample_env 1700000100 (?rq (Some ''expired'')))
     = Respond 401 [(''error'', Str ''Unauthorized''), (''message'', Str ''Access token expired'')]"
    using T [of "?rq (Some ''expired'')"] by (simp add: sample_verify)
  have c: "fst (authenticateToken sample_jwt sample_env 1700000100 (?rq (Some ''garbage'')))
     = Respond 401 [(''error'', Str ''Unauthorized''), (''message'', Str ''Invalid access token'')]"
    using T [of "?rq (Some ''garbage'')"] by (simp add: sample_verify)
  have d: "fst (authenticateToken sample_jwt sample_env 1700000100 (?rq (Some ''early'')))
     = Respond 401 [(''error'', Str ''Unauthorized''), (''message'', Str ''Authentication failed'')]"
    using T [of "?rq (Some ''early'')"] by (simp add: sample_verify)
  have e: "authenticateToken sample_jwt sample_env 1700000100
        (?rq (Some ''access-secret.1.15m.1700000000''))
     = (Next, (?rq (Some ''access-secret.1.15m.1700000000''))
          \<lparr>user := Some \<lparr>uid = ''1'', email = ''admin@lumanagi.com'', role = ''admin''\<rparr>\<rparr>)"
    using T [of "?rq (Some ''access-secret.1.15m.1700000000'')"] by (simp add: sample_verify)
  from a b c d e show ?thesis by simp
qed

text \<open>
  C5. Optional mode, \<^verbatim>\<open>optionalAuth\<close>, always continues: without a token the request
  is unchanged and nothing is logged; with a token that fails verification a warning is
  logged and the request is unchanged; only a token that verifies attaches the decoded
  identity.
\<close>

theorem optionalAuth_never_rejects:
  "fst (optionalAuth lib env now req) = Next
   \<and> (falsy (cookies_accessToken req) \<longrightarrow> optionalAuth lib env now req = (Next, req, []))
   \<and> (\<forall>t e. cookies_accessToken req = Some t \<and> t \<noteq> []
          \<and> jwt_verify lib t (JWT_SECRET env) now = Inl e \<longrightarrow>
        optionalAuth lib env now req =
          (Next, req, [ConsoleWarn ''Optional auth token invalid:'' (error_message e)]))
   \<and> (\<forall>t d. cookies_accessToken req = Some t \<and> t \<noteq> []
          \<and> jwt_verify lib t (JWT_SECRET env) now = Inr d \<longrightarrow>
        optionalAuth lib env now req = (Next, req\<lparr>user := Some d\<rparr>, []))"
  by (cases "cookies_accessToken req")
     (auto simp: optionalAuth_def split: sum.splits)

theorem optionalAuth_never_rejects_witness:
  "optionalAuth sample_jwt sample_env 1700000100
      \<lparr>cookies_accessToken = None, cookies_refreshToken = None, http_method = ''GET'', user = None\<rparr>
     = (Next,
        \<lparr>cookies_accessToken = None, cookies_refreshToken = None, http_method = ''GET'',
         user = None\<rparr>, [])
   \<and> optionalAuth sample_jwt sample_env 1700000100
      \<lparr>cookies_accessToken = Some ''expired'', cookies_refreshToken = None, http_method = ''GET'',
       user = None\<rparr>
     = (Next,
        \<lparr>cookies_accessToken = Some ''expired'', cookies_refreshToken = None, http_method = ''GET'',
         user = None\<rparr>,
        [ConsoleWarn ''Optional auth token invalid:'' ''jwt expired''])
   \<and> optionalAuth sample_jwt sample_env 1700000100
      \<lparr>cookies_accessToken = Some ''access-secret.1.15m.1700000000'', cookies_refreshToken = None,
       http_method = ''GET'', user = None\<rparr>
     = (Next,
        \<lparr>cookies_accessToken = Some ''access-secret.1.15m.1700000000'', cookies_refreshToken = None,
         http_method = ''GET'',
         user = Some \<lparr>uid = ''1'', email = ''admin@lumanagi.com'', role = ''admin''\<rparr>\<rparr>, [])"
proof -
  let ?rq = "\<lambda>c. \<lparr>cookies_accessToken = c, cookies_refreshToken = None, http_method = ''GET'',
       user = None\<rparr>"
  note T = optionalAuth_never_rejects [of sample_jwt sample_env 1700000100]
  have a: "optionalAuth sample_jwt sample_env 1700000100 (?rq None) = (Next, ?rq None, [])"
    using T [of "?rq None"] by simp
  have b: "optionalAuth sample_jwt sample_env 1700000100 (?rq (Some ''expired''))
     = (Next, ?rq (Some ''expired''),
        [ConsoleWarn ''Optional auth token invalid:'' ''jwt expired''])"
    using T [of "?rq (Some ''expired'')"] by (simp add: sample_verify)
  have c: "optionalAuth sample_jwt sample_env 1700000100
        (?rq (Some ''access-secret.1.15m.1700000000''))
     = (Next, (?rq (Some ''access-secret.1.15m.1700000000''))
          \<lparr>user := Some \<lparr>uid = ''1'', email = ''admin@lumanagi.com'', role = ''admin''\<rparr>\<rparr>, [])"
    using T [of "?rq (Some ''access-secret.1.15m.1700000000'')"] by (simp add: sample_verify)
  from a b c show ?thesis by simp
qed

section \<open>Properties of the refresh route\<close>

lemma refresh_unregistered_rejected:
  "cookies_refreshToken req = Some t \<Longrightarrow> t \<notin> refreshTokens s \<Longrightarrow>
     refresh lib env now s req =
       (\<lparr>status = 401, body = [(''error'', Str ''Invalid refresh token'')],
         cookies = clearAuthCookies\<rparr>, s, [])"
  by (simp add: refresh_def)

lemma refresh_cases:
  obtains
    (refused) "status (fst (refresh lib env now s req)) = 401"
      and "fst (snd (refresh lib env now s req)) = s"
  | (rotated) t d u a r where "cookies_refreshToken req = Some t" and "t \<noteq> []"
      and "t \<in> refreshTokens s"
      and "jwt_verify lib t (JWT_REFRESH_SECRET env) now = Inr d"
      and "find (\<lambda>x. user_id x = uid d) (users s) = Some u"
      and "generateTokens lib env now u = Inr (a, r)"
      and "refresh lib env now s req =
             (\<lparr>status = 200, body = [(''message'', Str ''Token refreshed successfully'')],
               cookies = setAuthCookies a r\<rparr>,
              s\<lparr>refreshTokens := insert r (refreshTokens s - {t})\<rparr>, [])"
proof (cases "cookies_refreshToken req")
  case None
  then show ?thesis using refused by (simp add: refresh_def)
next
  case (Some t)
  show ?thesis
  proof (cases "t = [] \<or> t \<notin> refreshTokens s")
    case True
    with Some show ?thesis using refused by (simp add: refresh_def)
  next
    case reg: False
    show ?thesis
    proof (cases "jwt_verify lib t (JWT_REFRESH_SECRET env) now")
      case (Inl e)
      with Some reg show ?thesis using refused by (simp add: refresh_def)
    next
      case (Inr d)
      show ?thesis
      proof (cases "find (\<lambda>x. user_id x = uid d) (users s)")
        case None
        with Some reg Inr show ?thesis using refused by (simp add: refresh_def)
      next
        case found: (Some u)
        show ?thesis
        proof (cases "generateTokens lib env now u")
          case (Inl e)
          with Some reg Inr found show ?thesis using refused by (simp add: refresh_def)
        next
          case gen: (Inr p)
          obtain a r where p: "p = (a, r)" by (cases p)
          have "refresh lib env now s req =
             (\<lparr>status = 200, body = [(''message'', Str ''Token refreshed successfully'')],
               cookies = setAuthCookies a r\<rparr>,
              s\<lparr>refreshTokens := insert r (refreshTokens s - {t})\<rparr>, [])"
            using Some reg Inr found gen p by (simp add: refresh_def)
          then show ?thesis using rotated Some reg Inr found gen p by blast
        qed
      qed
    qed
  qed
qed

lemma refresh_not_ok_unchanged:
  "status (fst (refresh lib env now s req)) \<noteq> 200 \<Longrightarrow> fst (snd (refresh lib env now s req)) = s"
  by (rule refresh_cases [of lib env now s req]) simp_all

lemma setAuthCookies_inject:
  "setAuthCookies a r = setAuthCookies a' r' \<Longrightarrow> a = a' \<and> r = r'"
  by (simp add: setAuthCookies_def)

lemma refresh_rotated_token_revoked:
  assumes "status (fst (refresh lib env now s req)) = 200"
    and "cookies_refreshToken req = Some t"
    and "cookies (fst (refresh lib env now s req)) = setAuthCookies a r"
    and "r \<noteq> t"
  shows "t \<notin> refreshTokens (fst (snd (refresh lib env now s req)))
     \<and> status (fst (refresh lib' env' now' (fst (snd (refresh lib env now s req))) req)) = 401"
proof (rule refresh_cases [of lib env now s req])
  assume "status (fst (refresh lib env now s req)) = 401"
  with assms(1) show ?thesis by simp
next
  fix t' d u a' r'
  assume c: "cookies_refreshToken req = Some t'"
    and eq: "refresh lib env now s req =
             (\<lparr>status = 200, body = [(''message'', Str ''Token refreshed successfully'')],
               cookies = setAuthCookies a' r'\<rparr>,
              s\<lparr>refreshTokens := insert r' (refreshTokens s - {t'})\<rparr>, [])"
  from c assms(2) have t: "t' = t" by simp
  from eq assms(3) have "setAuthCookies a' r' = setAuthCookies a r" by simp
  then have r: "r' = r" using setAuthCookies_inject by blast
  from eq t r assms(4) have out: "t \<notin> refreshTokens (fst (snd (refresh lib env now s req)))"
    by simp
  then show ?thesis
    using refresh_unregistered_rejected [OF assms(2) out] by simp
qed

lemma sample_verify_refresh:
  "jwt_verify sample_jwt ''expired'' (JWT_REFRESH_SECRET sample_env) n =
     Inl \<lparr>error_name = ''TokenExpiredError'', error_message = ''jwt expired''\<rparr>"
  "jwt_verify sample_jwt ''refresh-secret.1.7d.1700000000'' (JWT_REFRESH_SECRET sample_env) n =
     Inr \<lparr>uid = ''1'', email = ''admin@lumanagi.com'', role = ''admin''\<rparr>"
  by (simp_all add: sample_jwt_def sample_env_def)

lemma sample_generateTokens:
  "generateTokens sample_jwt sample_env 1700000000
     \<lparr>user_id = ''1'', user_email = ''admin@lumanagi.com'', password = pw,
      full_name = ''Admin User'', user_role = ''admin'', created_at = c\<rparr>
   = Inr (''access-secret.1.15m.1700000000'', ''refresh-secret.1.7d.1700000000'')"
  by (simp add: generateTokens_def sample_jwt_def sample_env_def show_clock)

lemma mock_admin:
  "find (\<lambda>u. user_email u = ''admin@lumanagi.com'') (mock_users c c) =
     Some \<lparr>user_id = ''1'', user_email = ''admin@lumanagi.com'',
       password = Some ''$2a$10$AYh.miNYoHy.7xDMXVXqbOKWh62ZqVREmrg1tuR6Ho8B8obUHKb06'',
       full_name = ''Admin User'', user_role = ''admin'', created_at = c\<rparr>"
  "find (\<lambda>x. user_id x = ''1'') (mock_users c c) =
     Some \<lparr>user_id = ''1'', user_email = ''admin@lumanagi.com'',
       password = Some ''$2a$10$AYh.miNYoHy.7xDMXVXqbOKWh62ZqVREmrg1tuR6Ho8B8obUHKb06'',
       full_name = ''Admin User'', user_role = ''admin'', created_at = c\<rparr>"
  by (simp_all add: mock_users_def)

text \<open>
  C10. A refused refresh leaves the state as it was: whenever \<^verbatim>\<open>POST /refresh\<close>
  answers 401 the user list and the registry are unchanged. It answers 401 without a
  refresh cookie, for a token that is not registered, for a registered token that
  fails verification (which stays registered, an expired one included) and when the
  user of the token is not found.
\<close>

theorem refresh_failure_keeps_registry:
  "(status (fst (refresh lib env now s req)) = 401 \<longrightarrow> fst (snd (refresh lib env now s req)) = s)
   \<and> (falsy (cookies_refreshToken req) \<longrightarrow> status (fst (refresh lib env now s req)) = 401)
   \<and> (\<forall>t. cookies_refreshToken req = Some t \<and> t \<notin> refreshTokens s \<longrightarrow>
         status (fst (refresh lib env now s req)) = 401)
   \<and> (\<forall>t e. cookies_refreshToken req = Some t \<and> t \<noteq> [] \<and> t \<in> refreshTokens s
          \<and> jwt_verify lib t (JWT_REFRESH_SECRET env) now = Inl e \<longrightarrow>
         status (fst (refresh lib env now s req)) = 401
         \<and> t \<in> refreshTokens (fst (snd (refresh lib env now s req))))
   \<and> (\<forall>t d. cookies_refreshToken req = Some t \<and> t \<noteq> [] \<and> t \<in> refreshTokens s
          \<and> jwt_verify lib t (JWT_REFRESH_SECRET env) now = Inr d
          \<and> find (\<lambda>u. user_id u = uid d) (users s) = None \<longrightarrow>
         status (fst (refresh lib env now s req)) = 401)"
proof (intro conjI allI impI)
  assume "status (fst (refresh lib env now s req)) = 401"
  then show "fst (snd (refresh lib env now s req)) = s"
    using refresh_not_ok_unchanged by simp
next
  assume "falsy (cookies_refreshToken req)"
  then show "status (fst (refresh lib env now s req)) = 401"
    by (cases "cookies_refreshToken req") (simp_all add: refresh_def)
next
  fix t assume "cookies_refreshToken req = Some t \<and> t \<notin> refreshTokens s"
  then show "status (fst (refresh lib env now s req)) = 401"
    by (simp add: refresh_def)
next
  fix t e
  assume h: "cookies_refreshToken req = Some t \<and> t \<noteq> [] \<and> t \<in> refreshTokens s
          \<and> jwt_verify lib t (JWT_REFRESH_SECRET env) now = Inl e"
  then show "status (fst (refresh lib env now s req)) = 401"
    by (simp add: refresh_def)
  from h show "t \<in> refreshTokens (fst (snd (refresh lib env now s req)))"
    by (simp add: refresh_def)
next
  fix t d
  assume "cookies_refreshToken req = Some t \<and> t \<noteq> [] \<and> t \<in> refreshTokens s
          \<and> jwt_verify lib t (JWT_REFRESH_SECRET env) now = Inr d
          \<and> find (\<lambda>u. user_id u = uid d) (users s) = None"
  then show "status (fst (refresh lib env now s req)) = 401"
    by (simp add: refresh_def)
qed

theorem refresh_failure_keeps_registry_witness:
  "status (fst (refresh sample_jwt sample_env 1700000100
      \<lparr>users = mock_users ''c'' ''c'', refreshTokens = {''expired''}\<rparr>
      \<lparr>cookies_accessToken = None, cookies_refreshToken = Some ''expired'', http_method = ''POST'',
       user = None\<rparr>)) = 401
   \<and> fst (snd (refresh sample_jwt sample_env 1700000100
      \<lparr>users = mock_users ''c'' ''c'', refreshTokens = {''expired''}\<rparr>
      \<lparr>cookies_accessToken = None, cookies_refreshToken = Some ''expired'', http_method = ''POST'',
       user = None\<rparr>)) = \<lparr>users = mock_users ''c'' ''c'', refreshTokens = {''expired''}\<rparr>
   \<and> status (fst (refresh sample_jwt sample_env 1700000100
      \<lparr>users = mock_users ''c'' ''c'', refreshTokens = {''expired''}\<rparr>
      \<lparr>cookies_accessToken = None, cookies_refreshToken = None, http_method = ''POST'',
       user = None\<rparr>)) = 401
   \<and> status (fst (refresh sample_jwt sample_env 1700000100
      \<lparr>users = mock_users ''c'' ''c'', refreshTokens = {''expired''}\<rparr>
      \<lparr>cookies_accessToken = None, cookies_refreshToken = Some ''forged'', http_method = ''POST'',
       user = None\<rparr>)) = 401
   \<and> status (fst (refresh sample_jwt sample_env 1700000100
      \<lparr>users = [], refreshTokens = {''refresh-secret.1.7d.1700000000''}\<rparr>
      \<lparr>cookies_accessToken = None, cookies_refreshToken = Some ''refresh-secret.1.7d.1700000000'',
       http_method = ''POST'', user = None\<rparr>)) = 401"
proof -
  let ?s = "\<lparr>users = mock_users ''c'' ''c'', refreshTokens = {''expired''}\<rparr>"
  let ?s2 = "\<lparr>users = [], refreshTokens = {''refresh-secret.1.7d.1700000000''}\<rparr>"
  let ?rq = "\<lambda>c. \<lparr>cookies_accessToken = None, cookies_refreshToken = c, http_method = ''POST'',
       user = None\<rparr>"
  note T = refresh_failure_keeps_registry [of sample_jwt sample_env 1700000100]
  have a_pre: "cookies_refreshToken (?rq (Some ''expired'')) = Some ''expired'' \<and> ''expired'' \<noteq> []
      \<and> ''expired'' \<in> refreshTokens ?s
      \<and> jwt_verify sample_jwt ''expired'' (JWT_REFRESH_SECRET sample_env) 1700000100
          = Inl \<lparr>error_name = ''TokenExpiredError'', error_message = ''jwt expired''\<rparr>"
    by (simp add: sample_verify_refresh)
  have a: "status (fst (refresh sample_jwt sample_env 1700000100 ?s (?rq (Some ''expired'')))) = 401"
    using T [of ?s "?rq (Some ''expired'')", THEN conjunct2, THEN conjunct2, THEN conjunct2,
        THEN conjunct1, THEN spec, THEN spec, THEN mp, OF a_pre]
    by (rule conjunct1)
  have b: "fst (snd (refresh sample_jwt sample_env 1700000100 ?s (?rq (Some ''expired'')))) = ?s"
    using T [of ?s "?rq (Some ''expired'')", THEN conjunct1] a by (rule mp)
  have c: "status (fst (refresh sample_jwt sample_env 1700000100 ?s (?rq None))) = 401"
    using T [of ?s "?rq None", THEN conjunct2, THEN conjunct1] by simp
  have d: "status (fst (refresh sample_jwt sample_env 1700000100 ?s (?rq (Some ''forged'')))) = 401"
    using T [of ?s "?rq (Some ''forged'')", THEN conjunct2, THEN conjunct2, THEN conjunct1]
    by simp
  have e_pre: "cookies_refreshToken (?rq (Some ''refresh-secret.1.7d.1700000000''))
        = Some ''refresh-secret.1.7d.1700000000''
      \<and> ''refresh-secret.1.7d.1700000000'' \<noteq> []
      \<and> ''refresh-secret.1.7d.1700000000'' \<in> refreshTokens ?s2
      \<and> jwt_verify sample_jwt ''refresh-secret.1.7d.1700000000'' (JWT_REFRESH_SECRET sample_env)
            1700000100
          = Inr \<lparr>uid = ''1'', email = ''admin@lumanagi.com'', role = ''admin''\<rparr>
      \<and> find (\<lambda>u. user_id u = uid \<lparr>uid = ''1'', email = ''admin@lumanagi.com'', role = ''admin''\<rparr>)
            (users ?s2) = None"
    by (simp add: sample_verify_refresh)
  have e: "status (fst (refresh sample_jwt sample_env 1700000100 ?s2
        (?rq (Some ''refresh-secret.1.7d.1700000000'')))) = 401"
    using T [of ?s2 "?rq (Some ''refresh-secret.1.7d.1700000000'')", THEN conjunct2,
        THEN conjunct2, THEN conjunct2, THEN conjunct2, THEN spec, THEN spec, THEN mp, OF e_pre] .
  show ?thesis
    by (intro conjI) (rule a, rule b, rule c, rule d, rule e)
qed

text \<open>
  C1. Rotation. A token that is not registered is refused with 401 whatever its
  signature (\<open>refresh_unregistered_rejected\<close>), and a rotation that issues a token
  different from the presented one revokes the presented one
  (\<open>refresh_rotated_token_revoked\<close>). But the issued token is a function of the user,
  the secret and the clock, and nothing else: a rotation handled at the clock reading
  at which the presented token was issued issues that same token again, deleting it and
  adding it leaves it registered, and the repeated attempt succeeds instead of being
  refused. The example logs the admin in and refreshes twice within one clock reading.
\<close>

theorem refresh_same_second_keeps_old_token:
  assumes "generateTokens lib env now u = Inr (a, r)"
    and "cookies_refreshToken req = Some r" and "r \<noteq> []" and "r \<in> refreshTokens s"
    and "jwt_verify lib r (JWT_REFRESH_SECRET env) now = Inr d"
    and "find (\<lambda>x. user_id x = uid d) (users s) = Some u"
  shows "refresh lib env now s req =
           (\<lparr>status = 200, body = [(''message'', Str ''Token refreshed successfully'')],
             cookies = setAuthCookies a r\<rparr>, s, [])
     \<and> r \<in> refreshTokens (fst (snd (refresh lib env now s req)))
     \<and> status (fst (refresh lib env now (fst (snd (refresh lib env now s req))) req)) = 200"
proof -
  from assms(4) have same: "insert r (refreshTokens s - {r}) = refreshTokens s"
    by auto
  have first: "refresh lib env now s req =
           (\<lparr>status = 200, body = [(''message'', Str ''Token refreshed successfully'')],
             cookies = setAuthCookies a r\<rparr>, s, [])"
    using assms same by (simp add: refresh_def)
  then show ?thesis using assms(4) by simp
qed

theorem refresh_same_second_keeps_old_token_witness:
  "fst (snd (login sample_jwt sample_env (\<lambda>p h. Inr (p = ''demo123'')) 1700000000
       \<lparr>users = mock_users ''c'' ''c'', refreshTokens = {}\<rparr>
       (Some ''admin@lumanagi.com'') (Some ''demo123'')))
     = \<lparr>users = mock_users ''c'' ''c'', refreshTokens = {''refresh-secret.1.7d.1700000000''}\<rparr>
   \<and> cookies (fst (login sample_jwt sample_env (\<lambda>p h. Inr (p = ''demo123'')) 1700000000
       \<lparr>users = mock_users ''c'' ''c'', refreshTokens = {}\<rparr>
       (Some ''admin@lumanagi.com'') (Some ''demo123'')))
     = setAuthCookies ''access-secret.1.15m.1700000000'' ''refresh-secret.1.7d.1700000000''
   \<and> refresh sample_jwt sample_env 1700000000
       \<lparr>users = mock_users ''c'' ''c'', refreshTokens = {''refresh-secret.1.7d.1700000000''}\<rparr>
       \<lparr>cookies_accessToken = Some ''access-secret.1.15m.1700000000'',
        cookies_refreshToken = Some ''refresh-secret.1.7d.1700000000'',
        http_method = ''POST'', user = None\<rparr>
     = (\<lparr>status = 200, body = [(''message'', Str ''Token refreshed successfully'')],
         cookies = setAuthCookies ''access-secret.1.15m.1700000000''
                     ''refresh-secret.1.7d.1700000000''\<rparr>,
        \<lparr>users = mock_users ''c'' ''c'', refreshTokens = {''refresh-secret.1.7d.1700000000''}\<rparr>,
        [])
   \<and> status (fst (refresh sample_jwt sample_env 1700000000
       (fst (snd (refresh sample_jwt sample_env 1700000000
          \<lparr>users = mock_users ''c'' ''c'', refreshTokens = {''refresh-secret.1.7d.1700000000''}\<rparr>
          \<lparr>cookies_accessToken = Some ''access-secret.1.15m.1700000000'',
           cookies_refreshToken = Some ''refresh-secret.1.7d.1700000000'',
           http_method = ''POST'', user = None\<rparr>)))
       \<lparr>cookies_accessToken = Some ''access-secret.1.15m.1700000000'',
        cookies_refreshToken = Some ''refresh-secret.1.7d.1700000000'',
        http_method = ''POST'', user = None\<rparr>)) = 200"
proof -
  let ?admin = "\<lparr>user_id = ''1'', user_email = ''admin@lumanagi.com'',
       password = Some ''$2a$10$AYh.miNYoHy.7xDMXVXqbOKWh62ZqVREmrg1tuR6Ho8B8obUHKb06'',
       full_name = ''Admin User'', user_role = ''admin'', created_at = ''c''\<rparr>"
  let ?s0 = "\<lparr>users = mock_users ''c'' ''c'', refreshTokens = {}\<rparr>"
  let ?s1 = "\<lparr>users = mock_users ''c'' ''c'', refreshTokens = {''refresh-secret.1.7d.1700000000''}\<rparr>"
  let ?rq = "\<lparr>cookies_accessToken = Some ''access-secret.1.15m.1700000000'',
        cookies_refreshToken = Some ''refresh-secret.1.7d.1700000000'',
        http_method = ''POST'', user = None\<rparr>"
  have lg: "login sample_jwt sample_env (\<lambda>p h. Inr (p = ''demo123'')) 1700000000 ?s0
       (Some ''admin@lumanagi.com'') (Some ''demo123'')
     = (\<lparr>status = 200,
         body = [(''user'', userWithoutPassword ?admin), (''message'', Str ''Login successful'')],
         cookies = setAuthCookies ''access-secret.1.15m.1700000000''
                     ''refresh-secret.1.7d.1700000000''\<rparr>, ?s1, [])"
    by (simp add: login_def mock_admin sample_generateTokens)
  have h1: "generateTokens sample_jwt sample_env 1700000000 ?admin
      = Inr (''access-secret.1.15m.1700000000'', ''refresh-secret.1.7d.1700000000'')"
    by (rule sample_generateTokens)
  have h2: "cookies_refreshToken ?rq = Some ''refresh-secret.1.7d.1700000000''" by simp
  have h3: "''refresh-secret.1.7d.1700000000'' \<noteq> []" by simp
  have h4: "''refresh-secret.1.7d.1700000000'' \<in> refreshTokens ?s1" by simp
  have h5: "jwt_verify sample_jwt ''refresh-secret.1.7d.1700000000''
        (JWT_REFRESH_SECRET sample_env) 1700000000
      = Inr \<lparr>uid = ''1'', email = ''admin@lumanagi.com'', role = ''admin''\<rparr>"
    by (rule sample_verify_refresh)
  have h6: "find (\<lambda>x. user_id x = uid \<lparr>uid = ''1'', email = ''admin@lumanagi.com'', role = ''admin''\<rparr>)
        (users ?s1) = Some ?admin"
    by (simp add: mock_admin)
  note R = refresh_same_second_keeps_old_token [OF h1 h2 h3 h4 h5 h6]
  show ?thesis
    apply (intro conjI)
       apply (simp add: lg)
      apply (simp add: lg)
     apply (rule R [THEN conjunct1])
    apply (rule R [THEN conjunct2, THEN conjunct2])
    done
qed

section \<open>Properties of the login rate limiter\<close>

lemma retry_after_ceiling:
  "- ((int now - int reset) div 1000) = \<lceil>(real reset - real now) / 1000\<rceil>"
proof -
  have "\<lceil>real_of_int (int reset - int now) / real_of_int 1000\<rceil> = - (- (int reset - int now) div 1000)"
    by (rule ceiling_divide_eq_div)
  then show ?thesis by simp
qed

lemma rateLimit_in_window:
  assumes "store key = Some b" and "now < resetAt b"
  shows "\<exists>b'. snd (rateLimit opts f store key now st) key = Some b'
           \<and> resetAt b' = resetAt b
           \<and> hits b \<le> hits b'
           \<and> (400 \<le> st \<longrightarrow> hits b' = hits b + 1)"
  using assms by (simp add: rateLimit_def current_bucket_def Let_def)

lemma attempts_in_window:
  assumes "store key = Some b" and "\<forall>(ti, si) \<in> set es. ti < resetAt b"
  shows "\<exists>b'. attempts opts f store key es key = Some b'
           \<and> resetAt b' = resetAt b
           \<and> hits b + length (filter (\<lambda>(ti, si). 400 \<le> si) es) \<le> hits b'"
  using assms
proof (induction es arbitrary: store b)
  case Nil
  then show ?case by simp
next
  case (Cons e es)
  obtain t st where e: "e = (t, st)" by (cases e)
  from Cons.prems e have t: "t < resetAt b" by simp
  from rateLimit_in_window [where store = store and key = key and b = b and now = t
      and opts = opts and f = f and st = st] Cons.prems(1) t
  obtain b1 where b1: "snd (rateLimit opts f store key t st) key = Some b1"
    "resetAt b1 = resetAt b" "hits b \<le> hits b1" "400 \<le> st \<longrightarrow> hits b1 = hits b + 1"
    by blast
  from Cons.prems(2) b1(2) have rest: "\<forall>(ti, si) \<in> set es. ti < resetAt b1" by simp
  from Cons.IH [where store = "snd (rateLimit opts f store key t st)" and b = b1] b1(1) rest
  obtain b' where b': "attempts opts f (snd (rateLimit opts f store key t st)) key es key = Some b'"
    "resetAt b' = resetAt b1"
    "hits b1 + length (filter (\<lambda>(ti, si). 400 \<le> si) es) \<le> hits b'"
    by blast
  show ?case
    using b' b1 e by (cases "400 \<le> st") auto
qed

lemma rateLimit_limited:
  assumes "store key = Some b" and "now < resetAt b" and "max_requests opts \<le> hits b"
  shows "fst (rateLimit opts f store key now st) =
           Respond 429 (createRateLimitMessage f
             \<lparr>limit = max_requests opts, remaining = 0, resetTime = resetAt b\<rparr> now)"
  using assms by (simp add: rateLimit_def current_bucket_def Let_def rateLimitHandler_def)

lemma rateLimit_counts:
  assumes "fst (rateLimit opts f store key now st) = Next"
  shows "\<exists>b'. snd (rateLimit opts f store key now st) key = Some b'
           \<and> hits b' = hits (current_bucket opts store key now)
                 + (if skipSuccessfulRequests opts \<and> st < 400 then 0 else 1)"
  using assms
  by (auto simp: rateLimit_def Let_def rateLimitHandler_def split: if_splits)

lemma rateLimit_other_key:
  "key' \<noteq> key \<Longrightarrow> snd (rateLimit opts f store key' now st) key = store key"
  by (simp add: rateLimit_def Let_def)

lemma rateLimit_fresh:
  assumes "\<forall>b. store key = Some b \<longrightarrow> resetAt b \<le> now" and "0 < max_requests opts"
  shows "fst (rateLimit opts f store key now st) = Next
     \<and> snd (rateLimit opts f store key now st) key =
         Some \<lparr>hits = (if skipSuccessfulRequests opts \<and> st < 400 then 0 else 1),
               resetAt = now + windowMs opts\<rparr>"
proof (cases "store key")
  case None
  then show ?thesis using assms(2) by (simp add: rateLimit_def current_bucket_def Let_def)
next
  case (Some b)
  with assms(1) have "\<not> now < resetAt b" by (simp add: not_less)
  with Some show ?thesis using assms(2) by (simp add: rateLimit_def current_bucket_def Let_def)
qed

lemma rateLimit_below:
  assumes "store key = Some b" and "now < resetAt b" and "hits b < max_requests opts"
    and "skipSuccessfulRequests opts"
  shows "fst (rateLimit opts f store key now st) = Next
     \<and> snd (rateLimit opts f store key now st) key =
         Some \<lparr>hits = hits b + (if st < 400 then 0 else 1), resetAt = resetAt b\<rparr>"
  using assms by (simp add: rateLimit_def current_bucket_def Let_def)

lemma attempts_in_window_exact:
  assumes "store key = Some b" and "\<forall>(ti, si) \<in> set es. ti < resetAt b"
    and "skipSuccessfulRequests opts"
    and "hits b + length (filter (\<lambda>(ti, si). 400 \<le> si) es) < max_requests opts"
  shows "\<exists>b'. attempts opts f store key es key = Some b'
           \<and> resetAt b' = resetAt b
           \<and> hits b' = hits b + length (filter (\<lambda>(ti, si). 400 \<le> si) es)"
  using assms
proof (induction es arbitrary: store b)
  case Nil
  then show ?case by simp
next
  case (Cons e es)
  obtain t st where e: "e = (t, st)" by (cases e)
  from Cons.prems(2) e have t: "t < resetAt b" by simp
  from Cons.prems(4) have below: "hits b < max_requests opts" by simp
  let ?b1 = "\<lparr>hits = hits b + (if st < 400 then 0 else 1), resetAt = resetAt b\<rparr>"
  from rateLimit_below [where store = store and key = key and b = b and now = t
      and opts = opts and f = f and st = st] Cons.prems(1) t below Cons.prems(3)
  have b1: "snd (rateLimit opts f store key t st) key = Some ?b1"
    by blast
  from Cons.prems(2) have rest: "\<forall>(ti, si) \<in> set es. ti < resetAt ?b1" by simp
  from Cons.prems(4) e
  have below': "hits ?b1 + length (filter (\<lambda>(ti, si). 400 \<le> si) es) < max_requests opts"
    by (cases "st < 400") simp_all
  from Cons.IH [where store = "snd (rateLimit opts f store key t st)" and b = ?b1]
    b1 rest Cons.prems(3) below'
  obtain b' where b': "attempts opts f (snd (rateLimit opts f store key t st)) key es key = Some b'"
    "resetAt b' = resetAt ?b1"
    "hits b' = hits ?b1 + length (filter (\<lambda>(ti, si). 400 \<le> si) es)"
    by blast
  show ?case
    using b' e by (cases "st < 400") simp_all
qed

lemma attempts_new_window:
  assumes "\<forall>b. store key = Some b \<longrightarrow> resetAt b \<le> fst (hd es)" and "es \<noteq> []"
    and "0 < max_requests opts"
    and "\<forall>(ti, si) \<in> set es. ti < fst (hd es) + windowMs opts"
  shows "\<exists>b'. attempts opts f store key es key = Some b'
           \<and> resetAt b' = fst (hd es) + windowMs opts
           \<and> length (filter (\<lambda>(ti, si). 400 \<le> si) es) \<le> hits b'"
proof -
  from assms(2) obtain t st rest where es: "es = (t, st) # rest" by (cases es) auto
  let ?b1 = "\<lparr>hits = (if skipSuccessfulRequests opts \<and> st < 400 then 0 else 1),
               resetAt = t + windowMs opts\<rparr>"
  from assms(1) es have fresh: "\<forall>b. store key = Some b \<longrightarrow> resetAt b \<le> t" by simp
  from rateLimit_fresh [where store = store and key = key and now = t and opts = opts
      and f = f and st = st] fresh assms(3)
  have b1: "snd (rateLimit opts f store key t st) key = Some ?b1" by blast
  from assms(4) es have rest: "\<forall>(ti, si) \<in> set rest. ti < resetAt ?b1" by simp
  from attempts_in_window [where store = "snd (rateLimit opts f store key t st)" and key = key
      and b = ?b1 and es = rest and opts = opts and f = f] b1 rest
  obtain b' where b': "attempts opts f (snd (rateLimit opts f store key t st)) key rest key = Some b'"
    "resetAt b' = resetAt ?b1"
    "hits ?b1 + length (filter (\<lambda>(ti, si). 400 \<le> si) rest) \<le> hits b'"
    by blast
  show ?thesis
    using b' es by (cases "400 \<le> st") auto
qed

lemma attempts_new_window_exact:
  assumes "\<forall>b. store key = Some b \<longrightarrow> resetAt b \<le> fst (hd es)" and "es \<noteq> []"
    and "skipSuccessfulRequests opts"
    and "\<forall>(ti, si) \<in> set es. ti < fst (hd es) + windowMs opts"
    and "length (filter (\<lambda>(ti, si). 400 \<le> si) es) < max_requests opts"
  shows "\<exists>b'. attempts opts f store key es key = Some b'
           \<and> resetAt b' = fst (hd es) + windowMs opts
           \<and> hits b' = length (filter (\<lambda>(ti, si). 400 \<le> si) es)"
proof -
  from assms(2) obtain t st rest where es: "es = (t, st) # rest" by (cases es) auto
  from assms(5) have pos: "0 < max_requests opts" by simp
  let ?b1 = "\<lparr>hits = (if st < 400 then 0 else 1), resetAt = t + windowMs opts\<rparr>"
  from assms(1) es have fresh: "\<forall>b. store key = Some b \<longrightarrow> resetAt b \<le> t" by simp
  from rateLimit_fresh [where store = store and key = key and now = t and opts = opts
      and f = f and st = st] fresh pos assms(3)
  have b1: "snd (rateLimit opts f store key t st) key = Some ?b1" by simp
  from assms(4) es have rest: "\<forall>(ti, si) \<in> set rest. ti < resetAt ?b1" by simp
  from assms(5) es
  have below: "hits ?b1 + length (filter (\<lambda>(ti, si). 400 \<le> si) rest) < max_requests opts"
    by (cases "st < 400") simp_all
  from attempts_in_window_exact [where store = "snd (rateLimit opts f store key t st)"
      and key = key and b = ?b1 and es = rest and opts = opts and f = f]
    b1 rest assms(3) below
  obtain b' where b': "attempts opts f (snd (rateLimit opts f store key t st)) key rest key = Some b'"
    "resetAt b' = resetAt ?b1"
    "hits b' = hits ?b1 + length (filter (\<lambda>(ti, si). 400 \<le> si) rest)"
    by blast
  show ?thesis
    using b' es by (cases "st < 400") simp_all
qed

text \<open>
  C8. The login limiter has a window of 15 minutes, a maximum of 5 and counts failed
  attempts only. Take a client key whose bucket is absent or has run out, and requests
  from it that all fall before the end of the 15 minutes opened by the first one. When
  at least five of them were answered with a status of 400 or more, the next request
  within those 15 minutes is answered 429 whatever the handlers behind the limiter
  would have answered, correct credentials included. When fewer than five were, the
  next request is let through and the count is the number of failed ones, plus one if
  this request fails too. A request that arrives once the window has run out is let
  through and opens a new window of 15 minutes, whatever the old count was. A request
  that is let through and answered with a status below 400 leaves the count as it was,
  any other adds one. The 429 body holds error, message, retryAfter (the seconds until
  the window resets, rounded up), limit, remaining and resetTime (the reset time as an
  ISO timestamp). Requests from another key leave a key's bucket alone.
\<close>

theorem login_rate_limit:
  "windowMs loginRateLimiter = 15 * 60 * 1000
   \<and> max_requests loginRateLimiter = 5
   \<and> skipSuccessfulRequests loginRateLimiter
   \<and> (\<forall>store key es t st.
         (\<forall>b. store key = Some b \<longrightarrow> resetAt b \<le> fst (hd es)) \<and> es \<noteq> []
         \<and> (\<forall>(ti, si) \<in> set es. ti < fst (hd es) + 15 * 60 * 1000)
         \<and> 5 \<le> length (filter (\<lambda>(ti, si). 400 \<le> si) es)
         \<and> t < fst (hd es) + 15 * 60 * 1000
       \<longrightarrow> fst (rateLimit loginRateLimiter toISOString
                  (attempts loginRateLimiter toISOString store key es) key t st) =
             Respond 429 (createRateLimitMessage toISOString
               \<lparr>limit = 5, remaining = 0, resetTime = fst (hd es) + 15 * 60 * 1000\<rparr> t))
   \<and> (\<forall>store key es t st.
         (\<forall>b. store key = Some b \<longrightarrow> resetAt b \<le> fst (hd es)) \<and> es \<noteq> []
         \<and> (\<forall>(ti, si) \<in> set es. ti < fst (hd es) + 15 * 60 * 1000)
         \<and> length (filter (\<lambda>(ti, si). 400 \<le> si) es) < 5
         \<and> t < fst (hd es) + 15 * 60 * 1000
       \<longrightarrow> fst (rateLimit loginRateLimiter toISOString
                  (attempts loginRateLimiter toISOString store key es) key t st) = Next
           \<and> snd (rateLimit loginRateLimiter toISOString
                  (attempts loginRateLimiter toISOString store key es) key t st) key =
               Some \<lparr>hits = length (filter (\<lambda>(ti, si). 400 \<le> si) es)
                             + (if st < 400 then 0 else 1),
                     resetAt = fst (hd es) + 15 * 60 * 1000\<rparr>)
   \<and> (\<forall>store key t st.
         (\<forall>b. store key = Some b \<longrightarrow> resetAt b \<le> t) \<longrightarrow>
         fst (rateLimit loginRateLimiter toISOString store key t st) = Next
         \<and> snd (rateLimit loginRateLimiter toISOString store key t st) key =
             Some \<lparr>hits = (if st < 400 then 0 else 1), resetAt = t + 15 * 60 * 1000\<rparr>)
   \<and> (\<forall>store key t st.
         fst (rateLimit loginRateLimiter toISOString store key t st) = Next \<longrightarrow>
         (\<exists>b. snd (rateLimit loginRateLimiter toISOString store key t st) key = Some b
            \<and> hits b = hits (current_bucket loginRateLimiter store key t)
                         + (if st < 400 then 0 else 1)))
   \<and> (\<forall>info now.
         createRateLimitMessage toISOString info now =
           [(''error'', Str ''Too many requests''),
            (''message'', Str (''You have exceeded the rate limit. Please try again in ''
                 @ show_int \<lceil>(real (resetTime info) - real now) / 1000\<rceil> @ '' seconds.'')),
            (''retryAfter'', Num \<lceil>(real (resetTime info) - real now) / 1000\<rceil>),
            (''limit'', Num (int (limit info))),
            (''remaining'', Num (int (remaining info))),
            (''resetTime'', Str (toISOString (resetTime info)))])
   \<and> (\<forall>store key other t st.
         other \<noteq> key \<longrightarrow>
         snd (rateLimit loginRateLimiter toISOString store other t st) key = store key)"
proof -
  have opts: "windowMs loginRateLimiter = 15 * 60 * 1000" "max_requests loginRateLimiter = 5"
    "skipSuccessfulRequests loginRateLimiter"
    by (simp_all add: loginRateLimiter_def)
  have blocked: "fst (rateLimit loginRateLimiter toISOString
                  (attempts loginRateLimiter toISOString store key es) key t st) =
             Respond 429 (createRateLimitMessage toISOString
               \<lparr>limit = 5, remaining = 0, resetTime = fst (hd es) + 15 * 60 * 1000\<rparr> t)"
    if h: "(\<forall>b. store key = Some b \<longrightarrow> resetAt b \<le> fst (hd es)) \<and> es \<noteq> []
         \<and> (\<forall>(ti, si) \<in> set es. ti < fst (hd es) + 15 * 60 * 1000)
         \<and> 5 \<le> length (filter (\<lambda>(ti, si). 400 \<le> si) es)
         \<and> t < fst (hd es) + 15 * 60 * 1000"
    for store :: "string \<Rightarrow> bucket option" and key :: string and es :: "(nat \<times> nat) list"
      and t st :: nat
  proof -
    from h opts
    have pre: "\<forall>b. store key = Some b \<longrightarrow> resetAt b \<le> fst (hd es)" "es \<noteq> []"
      "0 < max_requests loginRateLimiter"
      "\<forall>(ti, si) \<in> set es. ti < fst (hd es) + windowMs loginRateLimiter"
      by simp_all
    from attempts_new_window [where store = store and key = key and es = es
        and opts = loginRateLimiter and f = toISOString] pre
    obtain b where b: "attempts loginRateLimiter toISOString store key es key = Some b"
      "resetAt b = fst (hd es) + windowMs loginRateLimiter"
      "length (filter (\<lambda>(ti, si). 400 \<le> si) es) \<le> hits b"
      by blast
    from b h opts have lim: "t < resetAt b" "max_requests loginRateLimiter \<le> hits b"
      by simp_all
    from rateLimit_limited [where store = "attempts loginRateLimiter toISOString store key es"
        and key = key and b = b and now = t and opts = loginRateLimiter and f = toISOString
        and st = st] b(1) lim
    show ?thesis using b(2) opts by simp
  qed
  have below: "fst (rateLimit loginRateLimiter toISOString
                  (attempts loginRateLimiter toISOString store key es) key t st) = Next
           \<and> snd (rateLimit loginRateLimiter toISOString
                  (attempts loginRateLimiter toISOString store key es) key t st) key =
               Some \<lparr>hits = length (filter (\<lambda>(ti, si). 400 \<le> si) es)
                             + (if st < 400 then 0 else 1),
                     resetAt = fst (hd es) + 15 * 60 * 1000\<rparr>"
    if h: "(\<forall>b. store key = Some b \<longrightarrow> resetAt b \<le> fst (hd es)) \<and> es \<noteq> []
         \<and> (\<forall>(ti, si) \<in> set es. ti < fst (hd es) + 15 * 60 * 1000)
         \<and> length (filter (\<lambda>(ti, si). 400 \<le> si) es) < 5
         \<and> t < fst (hd es) + 15 * 60 * 1000"
    for store :: "string \<Rightarrow> bucket option" and key :: string and es :: "(nat \<times> nat) list"
      and t st :: nat
  proof -
    from h opts
    have pre: "\<forall>b. store key = Some b \<longrightarrow> resetAt b \<le> fst (hd es)" "es \<noteq> []"
      "skipSuccessfulRequests loginRateLimiter"
      "\<forall>(ti, si) \<in> set es. ti < fst (hd es) + windowMs loginRateLimiter"
      "length (filter (\<lambda>(ti, si). 400 \<le> si) es) < max_requests loginRateLimiter"
      by simp_all
    from attempts_new_window_exact [where store = store and key = key and es = es
        and opts = loginRateLimiter and f = toISOString] pre
    obtain b where b: "attempts loginRateLimiter toISOString store key es key = Some b"
      "resetAt b = fst (hd es) + windowMs loginRateLimiter"
      "hits b = length (filter (\<lambda>(ti, si). 400 \<le> si) es)"
      by blast
    from b h opts have lim: "t < resetAt b" "hits b < max_requests loginRateLimiter"
      by simp_all
    from rateLimit_below [where store = "attempts loginRateLimiter toISOString store key es"
        and key = key and b = b and now = t and opts = loginRateLimiter and f = toISOString
        and st = st] b(1) lim opts(3)
    show ?thesis using b(2,3) opts by simp
  qed
  have fresh: "fst (rateLimit loginRateLimiter toISOString store key t st) = Next
         \<and> snd (rateLimit loginRateLimiter toISOString store key t st) key =
             Some \<lparr>hits = (if st < 400 then 0 else 1), resetAt = t + 15 * 60 * 1000\<rparr>"
    if h: "\<forall>b. store key = Some b \<longrightarrow> resetAt b \<le> t"
    for store :: "string \<Rightarrow> bucket option" and key :: string and t st :: nat
  proof -
    have pos: "0 < max_requests loginRateLimiter" using opts by simp
    from rateLimit_fresh [where store = store and key = key and now = t
        and opts = loginRateLimiter and f = toISOString and st = st] h pos
    show ?thesis using opts by simp
  qed
  have counts: "\<exists>b. snd (rateLimit loginRateLimiter toISOString store key t st) key = Some b
            \<and> hits b = hits (current_bucket loginRateLimiter store key t)
                         + (if st < 400 then 0 else 1)"
    if h: "fst (rateLimit loginRateLimiter toISOString store key t st) = Next"
    for store :: "string \<Rightarrow> bucket option" and key :: string and t st :: nat
    using rateLimit_counts [OF h] by (simp add: loginRateLimiter_def)
  have body: "createRateLimitMessage toISOString info now =
           [(''error'', Str ''Too many requests''),
            (''message'', Str (''You have exceeded the rate limit. Please try again in ''
                 @ show_int \<lceil>(real (resetTime info) - real now) / 1000\<rceil> @ '' seconds.'')),
            (''retryAfter'', Num \<lceil>(real (resetTime info) - real now) / 1000\<rceil>),
            (''limit'', Num (int (limit info))),
            (''remaining'', Num (int (remaining info))),
            (''resetTime'', Str (toISOString (resetTime info)))]"
    for info :: rate_limit_info and now :: nat
    unfolding createRateLimitMessage_def Let_def retry_after_ceiling ..
  have other: "snd (rateLimit loginRateLimiter toISOString store other t st) key = store key"
    if "other \<noteq> key"
    for store :: "string \<Rightarrow> bucket option" and key other :: string and t st :: nat
    using that by (rule rateLimit_other_key)
  show ?thesis
    apply (intro conjI allI impI)
            apply (rule opts(1))
           apply (rule opts(2))
          apply (rule opts(3))
         apply (erule blocked)
        apply (erule below [THEN conjunct1])
       apply (erule below [THEN conjunct2])
      apply (erule fresh [THEN conjunct1])
     apply (erule fresh [THEN conjunct2])
     apply (erule counts)
    apply (rule body)
   apply (erule other)
    done
qed

theorem login_rate_limit_witness:
  "fst (rateLimit loginRateLimiter (\<lambda>ms. ''1970-01-01T00:15:00.000Z'')
          (attempts loginRateLimiter (\<lambda>ms. ''1970-01-01T00:15:00.000Z'') Map.empty ''203.0.113.7''
             [(0, 401), (60000, 401), (120000, 200), (180000, 401), (240000, 400), (300000, 401)])
          ''203.0.113.7'' 360000 200)
     = Respond 429
         [(''error'', Str ''Too many requests''),
          (''message'',
             Str ''You have exceeded the rate limit. Please try again in 540 seconds.''),
          (''retryAfter'', Num 540), (''limit'', Num 5), (''remaining'', Num 0),
          (''resetTime'', Str ''1970-01-01T00:15:00.000Z'')]
   \<and> fst (rateLimit loginRateLimiter (\<lambda>ms. ''1970-01-01T00:15:00.000Z'')
          (attempts loginRateLimiter (\<lambda>ms. ''1970-01-01T00:15:00.000Z'') Map.empty ''203.0.113.7''
             [(0, 401), (60000, 401), (120000, 200), (180000, 401), (240000, 400)])
          ''203.0.113.7'' 300000 200) = Next
   \<and> snd (rateLimit loginRateLimiter (\<lambda>ms. ''1970-01-01T00:15:00.000Z'')
          (attempts loginRateLimiter (\<lambda>ms. ''1970-01-01T00:15:00.000Z'') Map.empty ''203.0.113.7''
             [(0, 401), (60000, 401), (120000, 200), (180000, 401), (240000, 400)])
          ''203.0.113.7'' 300000 200) ''203.0.113.7''
       = Some \<lparr>hits = 4, resetAt = 900000\<rparr>
   \<and> fst (rateLimit loginRateLimiter (\<lambda>ms. ''1970-01-01T00:15:00.000Z'')
          (attempts loginRateLimiter (\<lambda>ms. ''1970-01-01T00:15:00.000Z'') Map.empty ''203.0.113.7''
             [(0, 401), (60000, 401), (120000, 200), (180000, 401), (240000, 400), (300000, 401)])
          ''203.0.113.7'' 900000 401) = Next
   \<and> snd (rateLimit loginRateLimiter (\<lambda>ms. ''1970-01-01T00:15:00.000Z'')
          (attempts loginRateLimiter (\<lambda>ms. ''1970-01-01T00:15:00.000Z'') Map.empty ''203.0.113.7''
             [(0, 401), (60000, 401), (120000, 200), (180000, 401), (240000, 400), (300000, 401)])
          ''203.0.113.7'' 900000 401) ''203.0.113.7''
       = Some \<lparr>hits = 1, resetAt = 1800000\<rparr>
   \<and> fst (rateLimit loginRateLimiter (\<lambda>ms. ''1970-01-01T00:15:00.000Z'') Map.empty
          ''203.0.113.7'' 0 200) = Next
   \<and> snd (rateLimit loginRateLimiter (\<lambda>ms. ''1970-01-01T00:15:00.000Z'') Map.empty
          ''203.0.113.7'' 0 200) ''203.0.113.7'' = Some \<lparr>hits = 0, resetAt = 900000\<rparr>"
proof -
  let ?f = "\<lambda>ms::nat. ''1970-01-01T00:15:00.000Z''"
  let ?k = "''203.0.113.7''"
  let ?es5 = "[(0, 401), (60000, 401), (120000, 200), (180000, 401), (240000, 400), (300000, 401)]
    :: (nat \<times> nat) list"
  let ?es4 = "[(0, 401), (60000, 401), (120000, 200), (180000, 401), (240000, 400)]
    :: (nat \<times> nat) list"
  note T = login_rate_limit [of ?f]
  note T4 = T [THEN conjunct2, THEN conjunct2, THEN conjunct2, THEN conjunct1]
  note T5 = T [THEN conjunct2, THEN conjunct2, THEN conjunct2, THEN conjunct2, THEN conjunct1]
  note T6 = T [THEN conjunct2, THEN conjunct2, THEN conjunct2, THEN conjunct2, THEN conjunct2,
      THEN conjunct1]

  have pre5: "(\<forall>b. Map.empty ?k = Some (b :: bucket) \<longrightarrow> resetAt b \<le> fst (hd ?es5)) \<and> ?es5 \<noteq> []
         \<and> (\<forall>(ti, si) \<in> set ?es5. ti < fst (hd ?es5) + 15 * 60 * 1000)
         \<and> 5 \<le> length (filter (\<lambda>(ti, si). 400 \<le> si) ?es5)
         \<and> 360000 < fst (hd ?es5) + 15 * 60 * 1000"
    by simp
  have limited: "fst (rateLimit loginRateLimiter ?f
          (attempts loginRateLimiter ?f Map.empty ?k ?es5) ?k 360000 200)
     = Respond 429 (createRateLimitMessage ?f
         \<lparr>limit = 5, remaining = 0, resetTime = fst (hd ?es5) + 15 * 60 * 1000\<rparr> 360000)"
    by (rule T4 [THEN spec, of "Map.empty :: string \<Rightarrow> bucket option", THEN spec, of ?k, THEN spec, of ?es5, THEN spec, of 360000,
          THEN spec, of 200, THEN mp, OF pre5])
  have shown: "show_nat 540 = ''540''"
    by (simp add: show_nat.simps)
  have msg: "createRateLimitMessage ?f
         \<lparr>limit = 5, remaining = 0, resetTime = fst (hd ?es5) + 15 * 60 * 1000\<rparr> 360000
     = [(''error'', Str ''Too many requests''),
          (''message'',
             Str ''You have exceeded the rate limit. Please try again in 540 seconds.''),
          (''retryAfter'', Num 540), (''limit'', Num 5), (''remaining'', Num 0),
          (''resetTime'', Str ''1970-01-01T00:15:00.000Z'')]"
    by (simp add: createRateLimitMessage_def show_int_def shown)
  have a: "fst (rateLimit loginRateLimiter ?f
          (attempts loginRateLimiter ?f Map.empty ?k ?es5) ?k 360000 200)
     = Respond 429
         [(''error'', Str ''Too many requests''),
          (''message'',
             Str ''You have exceeded the rate limit. Please try again in 540 seconds.''),
          (''retryAfter'', Num 540), (''limit'', Num 5), (''remaining'', Num 0),
          (''resetTime'', Str ''1970-01-01T00:15:00.000Z'')]"
    using limited msg by simp

  have pre4: "(\<forall>b. Map.empty ?k = Some (b :: bucket) \<longrightarrow> resetAt b \<le> fst (hd ?es4)) \<and> ?es4 \<noteq> []
         \<and> (\<forall>(ti, si) \<in> set ?es4. ti < fst (hd ?es4) + 15 * 60 * 1000)
         \<and> length (filter (\<lambda>(ti, si). 400 \<le> si) ?es4) < 5
         \<and> 300000 < fst (hd ?es4) + 15 * 60 * 1000"
    by simp
  note B = T5 [THEN spec, of "Map.empty :: string \<Rightarrow> bucket option", THEN spec, of ?k, THEN spec, of ?es4, THEN spec, of 300000,
      THEN spec, of 200, THEN mp, OF pre4]
  have b1: "fst (rateLimit loginRateLimiter ?f
          (attempts loginRateLimiter ?f Map.empty ?k ?es4) ?k 300000 200) = Next"
    by (rule B [THEN conjunct1])
  have b2: "snd (rateLimit loginRateLimiter ?f
          (attempts loginRateLimiter ?f Map.empty ?k ?es4) ?k 300000 200) ?k
       = Some \<lparr>hits = 4, resetAt = 900000\<rparr>"
    using B [THEN conjunct2] by simp

  have pre_w: "\<forall>b. Map.empty ?k = Some (b :: bucket) \<longrightarrow> resetAt b \<le> fst (hd ?es5)" "?es5 \<noteq> []"
    "0 < max_requests loginRateLimiter"
    "\<forall>(ti, si) \<in> set ?es5. ti < fst (hd ?es5) + windowMs loginRateLimiter"
    by (simp_all add: loginRateLimiter_def)
  from attempts_new_window [where store = Map.empty and key = ?k and es = ?es5
      and opts = loginRateLimiter and f = ?f] pre_w
  obtain b where b: "attempts loginRateLimiter ?f Map.empty ?k ?es5 ?k = Some b"
    "resetAt b = fst (hd ?es5) + windowMs loginRateLimiter"
    by blast
  from b have over: "\<forall>b. attempts loginRateLimiter ?f Map.empty ?k ?es5 ?k = Some b
      \<longrightarrow> resetAt b \<le> 900000"
    by (simp add: loginRateLimiter_def)
  note W = T6 [THEN spec, of "attempts loginRateLimiter ?f Map.empty ?k ?es5", THEN spec, of ?k,
      THEN spec, of 900000, THEN spec, of 401, THEN mp, OF over]
  have c1: "fst (rateLimit loginRateLimiter ?f
          (attempts loginRateLimiter ?f Map.empty ?k ?es5) ?k 900000 401) = Next"
    by (rule W [THEN conjunct1])
  have c2: "snd (rateLimit loginRateLimiter ?f
          (attempts loginRateLimiter ?f Map.empty ?k ?es5) ?k 900000 401) ?k
       = Some \<lparr>hits = 1, resetAt = 1800000\<rparr>"
    using W [THEN conjunct2] by simp

  have none: "\<forall>b. Map.empty ?k = Some (b :: bucket) \<longrightarrow> resetAt b \<le> 0"
    by simp
  note F = T6 [THEN spec, of "Map.empty :: string \<Rightarrow> bucket option", THEN spec, of ?k, THEN spec, of 0, THEN spec, of 200,
      THEN mp, OF none]
  have d1: "fst (rateLimit loginRateLimiter ?f Map.empty ?k 0 200) = Next"
    by (rule F [THEN conjunct1])
  have d2: "snd (rateLimit loginRateLimiter ?f Map.empty ?k 0 200) ?k
       = Some \<lparr>hits = 0, resetAt = 900000\<rparr>"
    using F [THEN conjunct2] by simp

  show ?thesis
    by (intro conjI) (rule a, rule b1, rule b2, rule c1, rule c2, rule d1, rule d2)
qed

end
